theory Spec2Isabelle
  imports Complex_Main "HOL-Library.AList" "HOL-Library.Char_ord" "HOL-Library.List_Lexorder"
    "HOL-Library.Sublist" "HOL-Library.Multiset"
begin

section \<open>Tables, label series and Python errors\<close>

text \<open>
  A pandas DataFrame is a row index (a list of labels, repeats allowed) and named numeric
  columns, each holding one value per row. A label series (or any labelled object with one
  payload per row) is an index and its values. Cells are real numbers; a missing statistic
  (NaN in pandas) is \<open>None\<close>.
\<close>

datatype error = KeyError | IndexError | ValueError | TypeError
  | NameError string | UnboundLocalError string

record 'l frame =
  index :: "'l list"
  cols :: "(string \<times> real list) list"

record ('l, 'c) series =
  s_index :: "'l list"
  s_values :: "'c list"

definition nrows :: "'l frame \<Rightarrow> nat" where
  "nrows X = length (index X)"

definition s_len :: "('l, 'c) series \<Rightarrow> nat" where
  "s_len y = length (s_index y)"

definition columns :: "'l frame \<Rightarrow> string list" where
  "columns X = map fst (cols X)"

definition wf_frame :: "'l frame \<Rightarrow> bool" where
  "wf_frame X \<longleftrightarrow>
     distinct (columns X) \<and> list_all (\<lambda>cv. length (snd cv) = nrows X) (cols X)"

definition get_col :: "'l frame \<Rightarrow> string \<Rightarrow> real list" where
  "get_col X c = (case map_of (cols X) c of Some vs \<Rightarrow> vs | None \<Rightarrow> [])"

text \<open>Positional row selection (\<open>iloc\<close> with positions already known to be in range).\<close>

definition pick :: "nat list \<Rightarrow> 'a list \<Rightarrow> 'a list" where
  "pick ps xs = map ((!) xs) ps"

definition take_rows :: "nat list \<Rightarrow> 'l frame \<Rightarrow> 'l frame" where
  "take_rows ps X =
     \<lparr>index = pick ps (index X), cols = map (\<lambda>cv. (fst cv, pick ps (snd cv))) (cols X)\<rparr>"

definition take_items :: "nat list \<Rightarrow> ('l, 'c) series \<Rightarrow> ('l, 'c) series" where
  "take_items ps y = \<lparr>s_index = pick ps (s_index y), s_values = pick ps (s_values y)\<rparr>"

text \<open>
  \<open>obj.drop(labels, axis=0)\<close>: a label absent from the index raises KeyError; otherwise
  every row whose label occurs in \<open>labels\<close> goes, the others stay in order.
\<close>

definition keep_positions :: "'l list \<Rightarrow> 'l list \<Rightarrow> nat list" where
  "keep_positions labels idx = filter (\<lambda>i. idx ! i \<notin> set labels) [0..<length idx]"

definition drop_frame :: "'l list \<Rightarrow> 'l frame \<Rightarrow> error + 'l frame" where
  "drop_frame labels X =
     (if \<exists>l \<in> set labels. l \<notin> set (index X) then Inl KeyError
      else Inr (take_rows (keep_positions labels (index X)) X))"

definition drop_series :: "'l list \<Rightarrow> ('l, 'c) series \<Rightarrow> error + ('l, 'c) series" where
  "drop_series labels y =
     (if \<exists>l \<in> set labels. l \<notin> set (s_index y) then Inl KeyError
      else Inr (take_items (keep_positions labels (s_index y)) y))"

section \<open>Column statistics\<close>

text \<open>
  \<open>Series.mean()\<close> is the arithmetic mean, NaN on an empty column. \<open>Series.std()\<close> is the
  sample standard deviation (divisor \<open>n - 1\<close>), NaN when there are fewer than two values.
\<close>

definition mean :: "real list \<Rightarrow> real option" where
  "mean xs = (if xs = [] then None else Some (sum_list xs / real (length xs)))"

definition std :: "real list \<Rightarrow> real option" where
  "std xs =
     (case mean xs of
        None \<Rightarrow> None
      | Some m \<Rightarrow>
          if length xs < 2 then None
          else Some (sqrt (sum_list (map (\<lambda>x. (x - m)\<^sup>2) xs) / real (length xs - 1))))"

text \<open>
  The mask \<open>(v < mean_ - 4*std_) | (v > mean_ + 4*std_)\<close>; a comparison with NaN is False.
\<close>

definition is_outlier :: "real option \<Rightarrow> real option \<Rightarrow> real \<Rightarrow> bool" where
  "is_outlier mean_c std_c v =
     (case mean_c of
        None \<Rightarrow> False
      | Some m \<Rightarrow> (case std_c of None \<Rightarrow> False | Some s \<Rightarrow> v < m - 4 * s \<or> v > m + 4 * s))"

section \<open>removeOutliers\<close>

text \<open>Line 31: the index labels of the rows selected by the mask of column \<open>col\<close>.\<close>

definition col_outliers :: "'l frame \<Rightarrow> string \<Rightarrow> 'l list" where
  "col_outliers X col =
     (let mean_c = mean (get_col X col); std_c = std (get_col X col)
      in map fst (filter (\<lambda>lv. is_outlier mean_c std_c (snd lv)) (zip (index X) (get_col X col))))"

text \<open>
  Lines 23-36: one pass of the column loop appends the column's labels to \<open>col_indices\<close>
  and then appends every list held in \<open>col_indices\<close> to \<open>indices\<close>.
\<close>

definition column_step :: "'l frame \<Rightarrow> string \<Rightarrow> 'l list list \<times> 'l list \<Rightarrow> 'l list list \<times> 'l list" where
  "column_step X col st =
     (let col_indices = fst st @ [col_outliers X col]
      in (col_indices, snd st @ concat col_indices))"

definition collect_indices :: "'l frame \<Rightarrow> 'l list list \<times> 'l list" where
  "collect_indices X = fold (column_step X) (columns X) ([], [])"

text \<open>
  Line 39, \<open>list(set(indices))\<close>: the order of the result is the set's own; \<open>drop\<close> looks
  only at which labels occur.
\<close>

definition outlier_indices :: "'l frame \<Rightarrow> 'l list" where
  "outlier_indices X = remdups (snd (collect_indices X))"

datatype out_line = Bangs | ErrorWord

definition removeOutliers ::
  "'l frame \<Rightarrow> ('l, 'c) series \<Rightarrow> error + ('l frame \<times> ('l, 'c) series \<times> out_line list)" where
  "removeOutliers X_train y_train =
     (let new_X_train = X_train; new_y_train = y_train;
          indices = outlier_indices new_X_train
      in case drop_frame indices new_X_train of
           Inl e \<Rightarrow> Inl e
         | Inr new_X \<Rightarrow>
             (case drop_series indices new_y_train of
                Inl e \<Rightarrow> Inl e
              | Inr new_y \<Rightarrow>
                  Inr (new_X, new_y,
                       if nrows new_X \<noteq> s_len new_y then [Bangs, ErrorWord, Bangs] else [])))"





definition union_of_column_outliers :: "'l frame \<Rightarrow> 'l set" where
  "union_of_column_outliers X = (\<Union>col \<in> set (columns X). set (col_outliers X col))"

section \<open>removeOutliers on an object store\<close>

text \<open>
  Python passes references. The store is the list of all objects allocated so far, a
  reference is a position in it, and a new object goes to the end. \<open>copy()\<close> and
  \<open>drop(...)\<close> (without \<open>inplace\<close>) allocate; reading a column, its statistics, the mask
  and \<open>len\<close> only read.
\<close>

datatype ('l, 'c) obj = DF "'l frame" | SR "('l, 'c) series"

type_synonym ('l, 'c) store = "('l, 'c) obj list"

definition deref :: "('l, 'c) store \<Rightarrow> nat \<Rightarrow> ('l, 'c) obj option" where
  "deref h r = (if r < length h then Some (h ! r) else None)"

definition alloc :: "('l, 'c) store \<Rightarrow> ('l, 'c) obj \<Rightarrow> ('l, 'c) store \<times> nat" where
  "alloc h ob = (h @ [ob], length h)"

definition copy_obj :: "('l, 'c) store \<Rightarrow> nat \<Rightarrow> ('l, 'c) store \<times> (error + nat)" where
  "copy_obj h r =
     (case deref h r of
        None \<Rightarrow> (h, Inl TypeError)
      | Some ob \<Rightarrow> (let (h', r') = alloc h ob in (h', Inr r')))"

definition obj_len :: "('l, 'c) obj \<Rightarrow> nat" where
  "obj_len ob = (case ob of DF X \<Rightarrow> nrows X | SR y \<Rightarrow> s_len y)"

definition drop_obj ::
  "('l, 'c) store \<Rightarrow> 'l list \<Rightarrow> nat \<Rightarrow> ('l, 'c) store \<times> (error + nat)" where
  "drop_obj h labels r =
     (case deref h r of
        None \<Rightarrow> (h, Inl TypeError)
      | Some (DF X) \<Rightarrow>
          (case drop_frame labels X of
             Inl e \<Rightarrow> (h, Inl e)
           | Inr X' \<Rightarrow> (let (h', r') = alloc h (DF X') in (h', Inr r')))
      | Some (SR y) \<Rightarrow>
          (case drop_series labels y of
             Inl e \<Rightarrow> (h, Inl e)
           | Inr y' \<Rightarrow> (let (h', r') = alloc h (SR y') in (h', Inr r'))))"

text \<open>
  The same function with references: \<open>X_train\<close> must point to a DataFrame (its \<open>columns\<close>
  are read), \<open>y_train\<close> to any labelled object. The result is the store after the call and
  either the error raised or the two returned references with the printed lines.
\<close>

definition removeOutliers_store ::
  "('l, 'c) store \<Rightarrow> nat \<Rightarrow> nat \<Rightarrow> ('l, 'c) store \<times> (error + (nat \<times> nat \<times> out_line list))" where
  "removeOutliers_store h X_train y_train =
     (case copy_obj h X_train of
        (h1, Inl e) \<Rightarrow> (h1, Inl e)
      | (h1, Inr new_X_train) \<Rightarrow>
     (case copy_obj h1 y_train of
        (h2, Inl e) \<Rightarrow> (h2, Inl e)
      | (h2, Inr new_y_train) \<Rightarrow>
     (case deref h2 new_X_train of
        Some (DF X) \<Rightarrow>
          (let indices = outlier_indices X
           in case drop_obj h2 indices new_X_train of
                (h3, Inl e) \<Rightarrow> (h3, Inl e)
              | (h3, Inr new_X) \<Rightarrow>
             (case drop_obj h3 indices new_y_train of
                (h4, Inl e) \<Rightarrow> (h4, Inl e)
              | (h4, Inr new_y) \<Rightarrow>
                  (h4, Inr (new_X, new_y,
                     if map_option obj_len (deref h4 new_X) \<noteq> map_option obj_len (deref h4 new_y)
                     then [Bangs, ErrorWord, Bangs] else []))))
      | _ \<Rightarrow> (h2, Inl TypeError))))"


section \<open>customGridSearchCV\<close>

text \<open>
  A Python dict keeps its keys in insertion order and an assignment to a key already
  present keeps the key's place: an association list under \<open>AList.update\<close>. The
  parameter grid maps each name to its list of candidate values. \<open>customCV\<close>, called with a
  model built from the current parameters and the fixed data, scaler, resampler and
  reducer, is the function \<open>cv\<close> from the keyword arguments to the score vector
  \<open>[recall, precision, f1]\<close> it returns. Candidate values are of any type \<open>'v\<close>, with
  \<open>repr\<close> their printed form.
\<close>

type_synonym 'v kwargs = "(string \<times> 'v) list"

type_synonym 'v grid = "(string \<times> 'v list) list"

record score_vec =
  recall :: real
  precision :: real
  f1 :: real

type_synonym score_dict = "(string \<times> score_vec) list"

fun join :: "string \<Rightarrow> string list \<Rightarrow> string" where
  "join sep [] = []"
| "join sep [x] = x"
| "join sep (x # y # ys) = x @ sep @ join sep (y # ys)"

text \<open>\<open>str(current_params)\<close>: \<open>{'name': value, ...}\<close> in insertion order.\<close>

definition str_item :: "('v \<Rightarrow> string) \<Rightarrow> string \<times> 'v \<Rightarrow> string" where
  "str_item repr kv = [CHR 0x27] @ fst kv @ [CHR 0x27] @ '': '' @ repr (snd kv)"

definition str_dict :: "('v \<Rightarrow> string) \<Rightarrow> 'v kwargs \<Rightarrow> string" where
  "str_dict repr d = ''{'' @ join '', '' (map (str_item repr) d) @ ''}''"

definition grid_get :: "'v grid \<Rightarrow> string \<Rightarrow> 'v list" where
  "grid_get param_grid k = (case map_of param_grid k of Some vs \<Rightarrow> vs | None \<Rightarrow> [])"

text \<open>
  The state of the enumeration: the dict \<open>current_params\<close>, the dict \<open>scores\<close>, and the
  keyword arguments of every model instantiated and evaluated so far, in order.
\<close>

record 'v search_state =
  current_params :: "'v kwargs"
  scores :: score_dict
  evaluated :: "'v kwargs list"

definition set_param :: "string \<Rightarrow> 'v \<Rightarrow> 'v search_state \<Rightarrow> 'v search_state" where
  "set_param k v st = st\<lparr>current_params := AList.update k v (current_params st)\<rparr>"

text \<open>
  \<open>customCV_params['clf'] = clf(**current_params)\<close> and
  \<open>scores[str(current_params)] = customCV(**customCV_params)\<close>.
\<close>

definition evaluate ::
  "('v kwargs \<Rightarrow> score_vec) \<Rightarrow> ('v \<Rightarrow> string) \<Rightarrow> 'v search_state \<Rightarrow> 'v search_state" where
  "evaluate cv repr st =
     st\<lparr>scores := AList.update (str_dict repr (current_params st)) (cv (current_params st))
                    (scores st),
        evaluated := evaluated st @ [current_params st]\<rparr>"

text \<open>Lines 209-237, innermost loop first.\<close>

definition loop5 ::
  "('v kwargs \<Rightarrow> score_vec) \<Rightarrow> ('v \<Rightarrow> string) \<Rightarrow> 'v grid \<Rightarrow> string list \<Rightarrow> nat \<Rightarrow>
   'v search_state \<Rightarrow> 'v search_state" where
  "loop5 cv repr param_grid param_keys len st0 =
     fold (\<lambda>value5 st.
             let st = set_param (param_keys ! 4) value5 st
             in if len = 5 then evaluate cv repr st else st)
       (grid_get param_grid (param_keys ! 4)) st0"

definition loop4 ::
  "('v kwargs \<Rightarrow> score_vec) \<Rightarrow> ('v \<Rightarrow> string) \<Rightarrow> 'v grid \<Rightarrow> string list \<Rightarrow> nat \<Rightarrow>
   'v search_state \<Rightarrow> 'v search_state" where
  "loop4 cv repr param_grid param_keys len st0 =
     fold (\<lambda>value4 st.
             let st = set_param (param_keys ! 3) value4 st
             in if len = 4 then evaluate cv repr st
                else loop5 cv repr param_grid param_keys len st)
       (grid_get param_grid (param_keys ! 3)) st0"

definition loop3 ::
  "('v kwargs \<Rightarrow> score_vec) \<Rightarrow> ('v \<Rightarrow> string) \<Rightarrow> 'v grid \<Rightarrow> string list \<Rightarrow> nat \<Rightarrow>
   'v search_state \<Rightarrow> 'v search_state" where
  "loop3 cv repr param_grid param_keys len st0 =
     fold (\<lambda>value3 st.
             let st = set_param (param_keys ! 2) value3 st
             in if len = 3 then evaluate cv repr st
                else loop4 cv repr param_grid param_keys len st)
       (grid_get param_grid (param_keys ! 2)) st0"

definition loop2 ::
  "('v kwargs \<Rightarrow> score_vec) \<Rightarrow> ('v \<Rightarrow> string) \<Rightarrow> 'v grid \<Rightarrow> string list \<Rightarrow> nat \<Rightarrow>
   'v search_state \<Rightarrow> 'v search_state" where
  "loop2 cv repr param_grid param_keys len st0 =
     fold (\<lambda>value2 st.
             let st = set_param (param_keys ! 1) value2 st
             in if len = 2 then evaluate cv repr st
                else loop3 cv repr param_grid param_keys len st)
       (grid_get param_grid (param_keys ! 1)) st0"

definition loop1 ::
  "('v kwargs \<Rightarrow> score_vec) \<Rightarrow> ('v \<Rightarrow> string) \<Rightarrow> 'v grid \<Rightarrow> string list \<Rightarrow> nat \<Rightarrow>
   'v search_state \<Rightarrow> 'v search_state" where
  "loop1 cv repr param_grid param_keys len st0 =
     fold (\<lambda>value st.
             let st = set_param (param_keys ! 0) value st
             in if len = 1 then evaluate cv repr st
                else loop2 cv repr param_grid param_keys len st)
       (grid_get param_grid (param_keys ! 0)) st0"

text \<open>
  Lines 186-237. \<open>param_keys[0]\<close> on an empty grid raises IndexError before anything is
  evaluated.
\<close>

definition grid_enumeration ::
  "('v kwargs \<Rightarrow> score_vec) \<Rightarrow> ('v \<Rightarrow> string) \<Rightarrow> 'v grid \<Rightarrow> error + 'v search_state" where
  "grid_enumeration cv repr param_grid =
     (let param_keys = sort (map fst param_grid);
          len = length param_keys
      in if len = 0 then Inl IndexError
         else Inr (loop1 cv repr param_grid param_keys len
                     \<lparr>current_params = [], scores = [], evaluated = []\<rparr>))"

text \<open>
  What is printed and what is returned. \<open>scaler_str\<close> is neither a parameter nor a local
  of the function, so it is looked up among the module's globals, \<open>glob\<close>; the module as
  written defines no such name. \<open>max_score\<close> is a local, unbound until assigned. In the
  \<open>all\<close> branch the \<open>return\<close> stands inside the loop; with no key at all the loop body
  never runs, no later test matches, and the function returns None.
\<close>

datatype 'g print_line = ScoreLine string score_vec | BestLine 'g score_vec

datatype ('g, 'rs, 'pc) returned =
    RetNone
  | RetScores score_dict
  | RetBest string score_vec 'g 'rs bool "'pc option"

definition module_globals :: "string \<Rightarrow> string option" where
  "module_globals = Map.empty"

fun py_max :: "real list \<Rightarrow> error + real" where
  "py_max [] = Inl ValueError"
| "py_max (x # xs) = Inr (fold max xs x)"

text \<open>Lines 246-248: the loop of the \<open>custom\<close> branch.\<close>

fun custom_loop :: "score_dict \<Rightarrow> string list \<Rightarrow> 'g print_line list \<times> error option" where
  "custom_loop sc [] = ([], None)"
| "custom_loop sc (key # keys) =
     (case map_of sc key of
        None \<Rightarrow> ([], Some KeyError)
      | Some s \<Rightarrow>
          (let here = (if recall s > 0.5 \<and> precision s > 0.2 then [ScoreLine key s] else [])
           in case custom_loop sc keys of (out, e) \<Rightarrow> (here @ out, e)))"

text \<open>
  Lines 252-255 (and 258-261, 264-267): the first key whose metric equals \<open>max_score\<close>
  is printed with \<open>scaler_str\<close> and returned.
\<close>

fun best_loop ::
  "(string \<Rightarrow> 'g option) \<Rightarrow> (score_vec \<Rightarrow> real) \<Rightarrow> real \<Rightarrow> score_dict \<Rightarrow> 'rs \<Rightarrow> bool \<Rightarrow> 'pc option \<Rightarrow>
   string list \<Rightarrow> 'g print_line list \<times> (error + ('g, 'rs, 'pc) returned)" where
  "best_loop glob metric max_score sc resampler outlier_removal pca [] = ([], Inr RetNone)"
| "best_loop glob metric max_score sc resampler outlier_removal pca (key # keys) =
     (case map_of sc key of
        None \<Rightarrow> ([], Inl KeyError)
      | Some s \<Rightarrow>
          if metric s = max_score then
            (case glob ''scaler_str'' of
               None \<Rightarrow> ([], Inl (NameError ''scaler_str''))
             | Some scaler_str \<Rightarrow>
                 ([BestLine scaler_str s],
                  Inr (RetBest key s scaler_str resampler outlier_removal pca)))
          else best_loop glob metric max_score sc resampler outlier_removal pca keys)"

definition report ::
  "(string \<Rightarrow> 'g option) \<Rightarrow> string \<Rightarrow> score_dict \<Rightarrow> 'rs \<Rightarrow> bool \<Rightarrow> 'pc option \<Rightarrow>
   'g print_line list \<times> (error + ('g, 'rs, 'pc) returned)" where
  "report glob scoring sc resampler outlier_removal pca =
     (let max_score = (None :: real option) in
      if scoring = ''all'' then
        (case sort (map fst sc) of
           [] \<Rightarrow> ([], Inr RetNone)
         | key # _ \<Rightarrow>
             (case map_of sc key of
                None \<Rightarrow> ([], Inl KeyError)
              | Some s \<Rightarrow> ([ScoreLine key s], Inr (RetScores sc))))
      else if scoring = ''custom'' then
        (case custom_loop sc (sort (map fst sc)) of
           (out, Some e) \<Rightarrow> (out, Inl e)
         | (out, None) \<Rightarrow> (out, Inr (RetScores sc)))
      else if scoring = ''recall'' then
        (case py_max (map recall (map snd sc)) of
           Inl e \<Rightarrow> ([], Inl e)
         | Inr max_score \<Rightarrow>
             best_loop glob recall max_score sc resampler outlier_removal pca (map fst sc))
      else if scoring = ''precision'' then
        (case max_score of
           None \<Rightarrow> ([], Inl (UnboundLocalError ''max_score''))
         | Some max_score \<Rightarrow>
             best_loop glob precision max_score sc resampler outlier_removal pca (map fst sc))
      else if scoring = ''f1'' then
        (case py_max (map f1 (map snd sc)) of
           Inl e \<Rightarrow> ([], Inl e)
         | Inr max_score \<Rightarrow>
             best_loop glob f1 max_score sc resampler outlier_removal pca (map fst sc))
      else ([], Inr RetNone))"

record ('v, 'g, 'rs, 'pc) run =
  models :: "'v kwargs list"
  printed :: "'g print_line list"
  outcome :: "error + ('g, 'rs, 'pc) returned"

definition customGridSearchCV ::
  "(string \<Rightarrow> 'g option) \<Rightarrow> ('v kwargs \<Rightarrow> score_vec) \<Rightarrow> ('v \<Rightarrow> string) \<Rightarrow> 'v grid \<Rightarrow> string \<Rightarrow>
   'rs \<Rightarrow> bool \<Rightarrow> 'pc option \<Rightarrow> ('v, 'g, 'rs, 'pc) run" where
  "customGridSearchCV glob cv repr param_grid scoring resampler outlier_removal pca =
     (case grid_enumeration cv repr param_grid of
        Inl e \<Rightarrow> \<lparr>models = [], printed = [], outcome = Inl e\<rparr>
      | Inr st \<Rightarrow>
          (case report glob scoring (scores st) resampler outlier_removal pca of
             (out, res) \<Rightarrow> \<lparr>models = evaluated st, printed = out, outcome = res\<rparr>))"

text \<open>
  The words of the specification: the full Cartesian product over the candidate values of
  the parameter names, in the order of the names.
\<close>

fun combos :: "'v grid \<Rightarrow> string list \<Rightarrow> 'v kwargs list" where
  "combos param_grid [] = [[]]"
| "combos param_grid (k # ks) =
     concat (map (\<lambda>v. map (\<lambda>rest. (k, v) # rest) (combos param_grid ks)) (grid_get param_grid k))"

definition scores_of ::
  "('v kwargs \<Rightarrow> score_vec) \<Rightarrow> ('v \<Rightarrow> string) \<Rightarrow> 'v kwargs list \<Rightarrow> score_dict" where
  "scores_of cv repr cs = fold (\<lambda>c. AList.update (str_dict repr c) (cv c)) cs []"

text \<open>The same enumeration for any number of names, one loop level per name.\<close>

fun loops ::
  "('v kwargs \<Rightarrow> score_vec) \<Rightarrow> ('v \<Rightarrow> string) \<Rightarrow> 'v grid \<Rightarrow> string list \<Rightarrow>
   'v search_state \<Rightarrow> 'v search_state" where
  "loops cv repr param_grid [] st = evaluate cv repr st"
| "loops cv repr param_grid (k # ks) st =
     fold (\<lambda>v st. loops cv repr param_grid ks (set_param k v st)) (grid_get param_grid k) st"

section \<open>customCV\<close>

text \<open>
  The splitter, the scaler, the resampler, the reducer, the classifier and the metric come
  from outside (scikit-learn, imbalanced-learn): they are the fields of \<open>collaborators\<close>.
  The scaler, resampler, reducer and classifier are objects with a state of their own,
  which any of their methods may change and which is carried from fold to fold.
  \<open>StratifiedKFold().split(X, y)\<close> looks at the number of rows of \<open>X\<close> and at the labels
  only. A scaler and a reducer return arrays (lists of rows); features reach the classifier
  as a table or as an array. Inside customCV the row labels are integers. Printing
  (\<open>print_splits\<close>, the banner of removeOutliers) is left out.
\<close>

datatype features = Table "int frame" | Array "real list list"

record ('sc, 'rs, 'pc, 'cl, 'c) collaborators =
  skf_split :: "nat \<Rightarrow> 'c list \<Rightarrow> (nat list \<times> nat list) list"
  fit_transform :: "'sc \<Rightarrow> int frame \<Rightarrow> 'sc \<times> real list list"
  transform :: "'sc \<Rightarrow> int frame \<Rightarrow> 'sc \<times> real list list"
  fit_resample :: "'rs \<Rightarrow> int frame \<Rightarrow> (int, 'c) series \<Rightarrow> 'rs \<times> int frame \<times> (int, 'c) series"
  pca_fit_transform :: "'pc \<Rightarrow> int frame \<Rightarrow> 'pc \<times> real list list"
  pca_transform :: "'pc \<Rightarrow> int frame \<Rightarrow> 'pc \<times> real list list"
  clf_fit :: "'cl \<Rightarrow> features \<Rightarrow> (int, 'c) series \<Rightarrow> 'cl"
  clf_predict :: "'cl \<Rightarrow> features \<Rightarrow> 'cl \<times> 'c list"
  classification_report :: "'c list \<Rightarrow> 'c list \<Rightarrow> score_vec"

record ('sc, 'rs, 'pc, 'cl) objects =
  ob_scaler :: 'sc
  ob_resampler :: 'rs
  ob_pca :: "'pc option"
  ob_clf :: 'cl

text \<open>\<open>X.iloc[positions]\<close>: a position out of range raises IndexError.\<close>

definition iloc :: "nat list \<Rightarrow> 'l frame \<Rightarrow> error + 'l frame" where
  "iloc ps X = (if list_all (\<lambda>i. i < nrows X) ps then Inr (take_rows ps X) else Inl IndexError)"

definition iloc_series :: "nat list \<Rightarrow> ('l, 'c) series \<Rightarrow> error + ('l, 'c) series" where
  "iloc_series ps y =
     (if list_all (\<lambda>i. i < s_len y) ps then Inr (take_items ps y) else Inl IndexError)"

text \<open>
  \<open>pd.DataFrame(array, columns=names)\<close>: a fresh index 0, 1, ...; rows of another width
  raise ValueError. \<open>pd.DataFrame(table, columns=names)\<close> selects the named columns.
\<close>

definition DataFrame :: "real list list \<Rightarrow> string list \<Rightarrow> error + int frame" where
  "DataFrame arr names =
     (if list_all (\<lambda>row. length row = length names) arr
      then Inr \<lparr>index = map int [0..<length arr],
               cols = map (\<lambda>j. (names ! j, map (\<lambda>row. row ! j) arr)) [0..<length names]\<rparr>
      else Inl ValueError)"

definition select_columns :: "'l frame \<Rightarrow> string list \<Rightarrow> 'l frame" where
  "select_columns F names = \<lparr>index = index F, cols = map (\<lambda>c. (c, get_col F c)) names\<rparr>"

text \<open>
  Lines 94 and 98-100: the training and test rows, the scaler fitted on the former. The
  result holds the scaler as \<open>fit_transform\<close> on line 98 left it, the scaler as
  \<open>transform\<close> on line 99 left it, and the two scaled tables.
\<close>

definition scale_fold ::
  "('sc, 'rs, 'pc, 'cl, 'c) collaborators \<Rightarrow> 'sc \<Rightarrow> int frame \<Rightarrow> nat list \<times> nat list \<Rightarrow>
   error + ('sc \<times> 'sc \<times> int frame \<times> int frame)" where
  "scale_fold env sc X fold_ix =
     (case iloc (fst fold_ix) X of Inl e \<Rightarrow> Inl e | Inr X_train \<Rightarrow>
     (case iloc (snd fold_ix) X of Inl e \<Rightarrow> Inl e | Inr X_test \<Rightarrow>
     (let (sc_fit, train_arr) = fit_transform env sc X_train;
          (sc_used, test_arr) = transform env sc_fit X_test
      in case DataFrame train_arr (columns X) of Inl e \<Rightarrow> Inl e | Inr X_train_s \<Rightarrow>
        (case DataFrame test_arr (columns X) of Inl e \<Rightarrow> Inl e | Inr X_test_s \<Rightarrow>
           Inr (sc_fit, sc_used, X_train_s, X_test_s)))))"

text \<open>
  What a completed fold leaves: the scaler as fitted on line 98, the scaled tables and the
  scores.
\<close>

record 'sc fold_result =
  fitted_scaler :: 'sc
  X_train_s :: "int frame"
  X_test_s :: "int frame"
  fold_scores :: score_vec

text \<open>Lines 94-133: the body of the loop over the folds.\<close>

definition fold_body ::
  "('sc, 'rs, 'pc, 'cl, 'c) collaborators \<Rightarrow> int frame \<Rightarrow> (int, 'c) series \<Rightarrow> bool \<Rightarrow>
   ('sc, 'rs, 'pc, 'cl) objects \<Rightarrow> nat list \<times> nat list \<Rightarrow>
   error + (('sc, 'rs, 'pc, 'cl) objects \<times> 'sc fold_result)" where
  "fold_body env X y outlier_removal ob fold_ix =
     (case scale_fold env (ob_scaler ob) X fold_ix of
        Inl e \<Rightarrow> Inl e
      | Inr (sc_fit, sc_used, Xtr_s, Xte_s) \<Rightarrow>
     (case iloc_series (fst fold_ix) y of Inl e \<Rightarrow> Inl e | Inr y_train \<Rightarrow>
     (case iloc_series (snd fold_ix) y of Inl e \<Rightarrow> Inl e | Inr y_test \<Rightarrow>
     (let (rs', X_res, y_train_r) = fit_resample env (ob_resampler ob) Xtr_s y_train;
          X_train_s_r = select_columns X_res (columns Xtr_s)
      in case (if outlier_removal
               then map_sum id (\<lambda>r. (fst r, fst (snd r))) (removeOutliers X_train_s_r y_train_r)
               else Inr (X_train_s_r, y_train_r)) of
           Inl e \<Rightarrow> Inl e
         | Inr (X_train_s_r_o, y_train_final) \<Rightarrow>
             (let (pca', X_train_final, X_test_final) =
                    (case ob_pca ob of
                       Some pc \<Rightarrow>
                         (let (pc_fit, tr) = pca_fit_transform env pc X_train_s_r_o;
                              (pc_used, te) = pca_transform env pc_fit Xte_s
                          in (Some pc_used, Array tr, Array te))
                     | None \<Rightarrow> (None, Table X_train_s_r_o, Table Xte_s));
                  fit_clf = clf_fit env (ob_clf ob) X_train_final y_train_final;
                  (clf_used, y_pred) = clf_predict env fit_clf X_test_final
              in Inr (\<lparr>ob_scaler = sc_used, ob_resampler = rs', ob_pca = pca',
                       ob_clf = clf_used\<rparr>,
                      \<lparr>fitted_scaler = sc_fit, X_train_s = Xtr_s, X_test_s = Xte_s,
                       fold_scores = classification_report env (s_values y_test) y_pred\<rparr>))))))"

text \<open>
  The loop: the results of the folds completed, and the error that stopped it, if any.
\<close>

fun cv_loop ::
  "('sc, 'rs, 'pc, 'cl, 'c) collaborators \<Rightarrow> int frame \<Rightarrow> (int, 'c) series \<Rightarrow> bool \<Rightarrow>
   ('sc, 'rs, 'pc, 'cl) objects \<Rightarrow> (nat list \<times> nat list) list \<Rightarrow>
   'sc fold_result list \<times> error option" where
  "cv_loop env X y outlier_removal ob [] = ([], None)"
| "cv_loop env X y outlier_removal ob (fold_ix # rest) =
     (case fold_body env X y outlier_removal ob fold_ix of
        Inl e \<Rightarrow> ([], Some e)
      | Inr (ob', r) \<Rightarrow>
          (case cv_loop env X y outlier_removal ob' rest of (rs, e) \<Rightarrow> (r # rs, e)))"

definition customCV_folds ::
  "('sc, 'rs, 'pc, 'cl, 'c) collaborators \<Rightarrow> 'cl \<Rightarrow> int frame \<Rightarrow> (int, 'c) series \<Rightarrow> 'sc \<Rightarrow> 'rs \<Rightarrow>
   bool \<Rightarrow> 'pc option \<Rightarrow> 'sc fold_result list \<times> error option" where
  "customCV_folds env clf0 X y scaler0 resampler0 outlier_removal pca0 =
     cv_loop env X y outlier_removal
       \<lparr>ob_scaler = scaler0, ob_resampler = resampler0, ob_pca = pca0, ob_clf = clf0\<rparr>
       (skf_split env (nrows X) (s_values y))"

text \<open>
  Lines 144-155: the means over the folds (\<open>np.mean\<close> of no value at all is NaN).
\<close>

definition customCV ::
  "('sc, 'rs, 'pc, 'cl, 'c) collaborators \<Rightarrow> 'cl \<Rightarrow> int frame \<Rightarrow> (int, 'c) series \<Rightarrow> 'sc \<Rightarrow> 'rs \<Rightarrow>
   bool \<Rightarrow> 'pc option \<Rightarrow> error + (real option \<times> real option \<times> real option)" where
  "customCV env clf0 X y scaler0 resampler0 outlier_removal pca0 =
     (case customCV_folds env clf0 X y scaler0 resampler0 outlier_removal pca0 of
        (rs, Some e) \<Rightarrow> Inl e
      | (rs, None) \<Rightarrow>
          Inr (mean (map (recall \<circ> fold_scores) rs),
               mean (map (precision \<circ> fold_scores) rs),
               mean (map (f1 \<circ> fold_scores) rs)))"

text \<open>
  Two tables that differ only in the values of the rows at the given positions: same
  index, same column names, and the same value wherever the position is not listed.
\<close>

definition differ_only_in_rows :: "nat list \<Rightarrow> 'l frame \<Rightarrow> 'l frame \<Rightarrow> bool" where
  "differ_only_in_rows ps X X' \<longleftrightarrow>
     index X' = index X \<and> columns X' = columns X \<and>
     list_all2 (\<lambda>cv cv'. length (snd cv') = length (snd cv) \<and>
                  list_all (\<lambda>i. i \<in> set ps \<or> snd cv' ! i = snd cv ! i) [0..<length (snd cv)])
       (cols X) (cols X')"

text \<open>
  What the scalers of sklearn.preprocessing do: \<open>fit\<close> forgets whatever the scaler held
  before, so that the fitted scaler and the scaled training rows are those of any other
  scaler of the same kind fitted on the same rows.
\<close>

definition fit_forgets :: "('sc, 'rs, 'pc, 'cl, 'c) collaborators \<Rightarrow> bool" where
  "fit_forgets env \<longleftrightarrow> (\<forall>s s' F. fit_transform env s F = fit_transform env s' F)"

section \<open>Sample tables\<close>

text \<open>
  With the sample standard deviation, a value can lie more than four deviations from the
  mean only in a column of at least 18 values. The sample column has 24 zeros and one 25:
  mean 1, standard deviation 5, so that the last row alone is an outlier.
\<close>

definition table25 :: "int frame" where
  "table25 =
     \<lparr>index = [0,1,2,3,4,5,6,7,8,9,10,11,12,13,14,15,16,17,18,19,20,21,22,23,24],
      cols = [(''V1'', [0,0,0,0,0,0,0,0,0,0,0,0,0,0,0,0,0,0,0,0,0,0,0,0,25])]\<rparr>"

definition labels25 :: "(int, bool) series" where
  "labels25 =
     \<lparr>s_index = [0,1,2,3,4,5,6,7,8,9,10,11,12,13,14,15,16,17,18,19,20,21,22,23,24],
      s_values = [False,False,False,False,False,False,False,False,False,False,False,False,
                  False,False,False,False,False,False,False,False,False,False,False,False,True]\<rparr>"

text \<open>The same data with the last row carrying the label of the first.\<close>

definition table25_dup :: "int frame" where
  "table25_dup =
     \<lparr>index = [0,1,2,3,4,5,6,7,8,9,10,11,12,13,14,15,16,17,18,19,20,21,22,23,0],
      cols = [(''V1'', [0,0,0,0,0,0,0,0,0,0,0,0,0,0,0,0,0,0,0,0,0,0,0,0,25])]\<rparr>"

definition labels25_dup :: "(int, bool) series" where
  "labels25_dup =
     \<lparr>s_index = [0,1,2,3,4,5,6,7,8,9,10,11,12,13,14,15,16,17,18,19,20,21,22,23,0],
      s_values = [False,False,False,False,False,False,False,False,False,False,False,False,
                  False,False,False,False,False,False,False,False,False,False,False,False,True]\<rparr>"

text \<open>
  Sample grids. Candidate values are given by their printed forms, so \<open>repr\<close> is the
  identity: \<open>{'n_neighbors': [1, 3, 5]}\<close>, \<open>{'p': [1, 2], 'n_neighbors': [1, 3]}\<close>, and a
  grid of two names whose candidates print as \<open>1\<close>, \<open>1, 'b': 2\<close> and \<open>2, 'b': 3\<close>, \<open>3\<close>.
  The sample scores depend on \<open>n_neighbors\<close> only.
\<close>

definition knn_grid :: "string grid" where
  "knn_grid = [(''n_neighbors'', [''1'', ''3'', ''5''])]"

definition two_grid :: "string grid" where
  "two_grid = [(''p'', [''1'', ''2'']), (''n_neighbors'', [''1'', ''3''])]"

definition clash_grid :: "string grid" where
  "clash_grid =
     [(''a'', [''1'', ''1, '' @ [CHR 0x27] @ ''b'' @ [CHR 0x27] @ '': 2'']),
      (''b'', [''2, '' @ [CHR 0x27] @ ''b'' @ [CHR 0x27] @ '': 3'', ''3''])]"

definition knn_cv :: "string kwargs \<Rightarrow> score_vec" where
  "knn_cv ps =
     (if map_of ps ''n_neighbors'' = Some ''1'' then \<lparr>recall = 0.6, precision = 0.3, f1 = 0.4\<rparr>
      else if map_of ps ''n_neighbors'' = Some ''3'' then \<lparr>recall = 0.8, precision = 0.1, f1 = 0.2\<rparr>
      else \<lparr>recall = 0.4, precision = 0.5, f1 = 0.45\<rparr>)"

text \<open>
  Scores for \<open>clash_grid\<close>: high for the first combination evaluated, low for the others.
\<close>

definition clash_cv :: "string kwargs \<Rightarrow> score_vec" where
  "clash_cv ps =
     (if map_of ps ''a'' = Some ''1'' \<and> map_of ps ''b'' \<noteq> Some ''3''
      then \<lparr>recall = 0.9, precision = 0.9, f1 = 0.9\<rparr>
      else \<lparr>recall = 0.1, precision = 0.1, f1 = 0.1\<rparr>)"

text \<open>
  A sample run of customCV: four rows, two folds, a scaler that subtracts the column means
  of the table it was fitted on, a resampler that returns its input, a classifier that
  always answers True, and fixed metrics. The second table differs from the first in rows
  2 and 3, the test rows of the second fold.
\<close>

definition frame_rows :: "'l frame \<Rightarrow> real list list" where
  "frame_rows F = map (\<lambda>i. map (\<lambda>cv. snd cv ! i) (cols F)) [0..<nrows F]"

definition column_means :: "'l frame \<Rightarrow> real list" where
  "column_means F = map (\<lambda>cv. sum_list (snd cv) / real (length (snd cv))) (cols F)"

definition centering_env :: "(real list, unit, unit, unit, bool) collaborators" where
  "centering_env =
     \<lparr>skf_split = (\<lambda>n ys. [([2, 3], [0, 1]), ([0, 1], [2, 3])]),
      fit_transform = (\<lambda>s F. (column_means F, map (\<lambda>row. map2 (-) row (column_means F)) (frame_rows F))),
      transform = (\<lambda>s F. (s, map (\<lambda>row. map2 (-) row s) (frame_rows F))),
      fit_resample = (\<lambda>rs F y. (rs, F, \<lparr>s_index = index F, s_values = s_values y\<rparr>)),
      pca_fit_transform = (\<lambda>pc F. (pc, frame_rows F)),
      pca_transform = (\<lambda>pc F. (pc, frame_rows F)),
      clf_fit = (\<lambda>cl F y. cl),
      clf_predict = (\<lambda>cl F. (cl, case F of Table T \<Rightarrow> replicate (nrows T) True
                                           | Array A \<Rightarrow> replicate (length A) True)),
      classification_report = (\<lambda>y_true y_pred. \<lparr>recall = 1, precision = 1 / 2, f1 = 2 / 3\<rparr>)\<rparr>"

text \<open>
  The same with a scaler that keeps a running average: a \<open>fit\<close> on a scaler fitted before
  averages the old means with the new ones.
\<close>

definition running_means :: "real list \<Rightarrow> 'l frame \<Rightarrow> real list" where
  "running_means s F =
     (if s = [] then column_means F else map2 (\<lambda>a b. (a + b) / 2) s (column_means F))"

definition remembering_env :: "(real list, unit, unit, unit, bool) collaborators" where
  "remembering_env =
     centering_env
       \<lparr>fit_transform :=
          (\<lambda>s F. (running_means s F, map (\<lambda>row. map2 (-) row (running_means s F)) (frame_rows F)))\<rparr>"

definition table4 :: "int frame" where
  "table4 = \<lparr>index = [0, 1, 2, 3], cols = [(''V1'', [1, 3, 10, 20])]\<rparr>"

definition table4_other :: "int frame" where
  "table4_other = \<lparr>index = [0, 1, 2, 3], cols = [(''V1'', [1, 3, 50, 70])]\<rparr>"

definition labels4 :: "(int, bool) series" where
  "labels4 = \<lparr>s_index = [0, 1, 2, 3], s_values = [False, True, False, True]\<rparr>"

section \<open>Properties of removeOutliers\<close>

subsection \<open>The accumulated labels\<close>

lemma col_outliers_subset: "set (col_outliers X c) \<subseteq> set (index X)"
  unfolding col_outliers_def Let_def
  by (auto dest: set_zip_leftD)

lemma collect_fold:
  "\<Union>(set ` set ci) \<subseteq> set ix \<Longrightarrow>
   fst (fold (column_step X) cs (ci, ix)) = ci @ map (col_outliers X) cs \<and>
   set (snd (fold (column_step X) cs (ci, ix))) = set ix \<union> (\<Union>c\<in>set cs. set (col_outliers X c))"
proof (induction cs arbitrary: ci ix)
  case Nil
  then show ?case by simp
next
  case (Cons c cs)
  let ?ci = "ci @ [col_outliers X c]"
  let ?ix = "ix @ concat ?ci"
  have inv: "\<Union>(set ` set ?ci) \<subseteq> set ?ix" using Cons.prems by auto
  have step: "fold (column_step X) (c # cs) (ci, ix) = fold (column_step X) cs (?ci, ?ix)"
    by (simp add: column_step_def Let_def)
  have "set ?ix = set ix \<union> set (col_outliers X c)" using Cons.prems by auto
  with Cons.IH[OF inv] step show ?case by auto
qed

lemma set_outlier_indices:
  "set (outlier_indices X) = (\<Union>c\<in>set (columns X). set (col_outliers X c))"
  using collect_fold[of "[]" "[]" X "columns X"]
  by (simp add: outlier_indices_def collect_indices_def)

lemma outlier_indices_subset: "set (outlier_indices X) \<subseteq> set (index X)"
  using col_outliers_subset by (fastforce simp: set_outlier_indices)

lemma keep_positions_set_cong:
  "set ls = set ls' \<Longrightarrow> keep_positions ls idx = keep_positions ls' idx"
  by (simp add: keep_positions_def)

lemma drop_frame_set_cong: "set ls = set ls' \<Longrightarrow> drop_frame ls X = drop_frame ls' X"
  by (simp add: drop_frame_def keep_positions_set_cong[of ls ls'])

text \<open>
  C10. The labels handed to \<open>drop\<close> are, as a set, the plain union of the per-column
  outlier labels: the repeated appending of earlier columns only adds duplicates, which
  \<open>set()\<close> removes. Dropping them gives what dropping the once-concatenated per-column
  lists gives.
\<close>

theorem outlier_indices_plain_union:
  "set (outlier_indices X) = union_of_column_outliers X \<and>
   distinct (outlier_indices X) \<and>
   drop_frame (outlier_indices X) X = drop_frame (concat (map (col_outliers X) (columns X))) X"
proof -
  have s: "set (outlier_indices X) = union_of_column_outliers X"
    by (simp add: set_outlier_indices union_of_column_outliers_def)
  have d: "distinct (outlier_indices X)" by (simp add: outlier_indices_def)
  have "set (outlier_indices X) = set (concat (map (col_outliers X) (columns X)))"
    by (simp add: set_outlier_indices)
  from drop_frame_set_cong[OF this] s d show ?thesis by simp
qed

subsection \<open>Equal lengths\<close>

lemma nrows_take_rows: "nrows (take_rows ps X) = length ps"
  by (simp add: nrows_def take_rows_def pick_def)

lemma s_len_take_items: "s_len (take_items ps y) = length ps"
  by (simp add: s_len_def take_items_def pick_def)

lemma removeOutliers_same_index:
  assumes "s_index y = index X"
  shows "removeOutliers X y =
     Inr (take_rows (keep_positions (outlier_indices X) (index X)) X,
          take_items (keep_positions (outlier_indices X) (index X)) y, [])"
proof -
  have "\<not> (\<exists>l \<in> set (outlier_indices X). l \<notin> set (index X))"
    using outlier_indices_subset[of X] by auto
  then show ?thesis using assms
    by (simp add: removeOutliers_def drop_frame_def drop_series_def Let_def
        nrows_take_rows s_len_take_items)
qed

text \<open>
  C6. When the features table and the label series carry the same row index,
  removeOutliers returns (it raises nothing), the rows kept are the same positions in
  both, namely those whose label is not among the outlier labels, so that the two results
  have the same length and the same index, and nothing is printed: the length-mismatch
  branch is not taken.
\<close>

theorem removeOutliers_equal_lengths:
  assumes "s_index y_train = index X_train"
  shows "let K = keep_positions (outlier_indices X_train) (index X_train) in
     removeOutliers X_train y_train = Inr (take_rows K X_train, take_items K y_train, []) \<and>
     nrows (take_rows K X_train) = s_len (take_items K y_train) \<and>
     index (take_rows K X_train) = s_index (take_items K y_train)"
proof -
  let ?K = "keep_positions (outlier_indices X_train) (index X_train)"
  have r: "removeOutliers X_train y_train = Inr (take_rows ?K X_train, take_items ?K y_train, [])"
    by (rule removeOutliers_same_index[OF assms])
  have l: "nrows (take_rows ?K X_train) = s_len (take_items ?K y_train)"
    by (simp add: nrows_take_rows s_len_take_items)
  have i: "index (take_rows ?K X_train) = s_index (take_items ?K y_train)"
    using assms by (simp add: take_rows_def take_items_def)
  from r l i show ?thesis unfolding Let_def by blast
qed

subsection \<open>Which rows go\<close>







subsection \<open>The sample tables evaluated\<close>

lemma sqrt25: "sqrt 25 = 5"
proof -
  have "sqrt 25 = sqrt (5\<^sup>2)" by simp
  also have "\<dots> = 5" by (simp del: power2_eq_square)
  finally show ?thesis .
qed

lemma mean_table25: "mean (get_col table25 ''V1'') = Some 1"
  by (simp add: mean_def table25_def get_col_def)

lemma std_table25: "std (get_col table25 ''V1'') = Some 5"
  using mean_table25 by (simp add: std_def table25_def get_col_def sqrt25)

lemma get_col_table25_dup: "get_col table25_dup c = get_col table25 c"
  by (simp add: get_col_def table25_def table25_dup_def)

lemma col_outliers_table25: "col_outliers table25 ''V1'' = [24]"
  unfolding col_outliers_def mean_table25 std_table25 Let_def
  by (simp add: table25_def get_col_def is_outlier_def)

lemma col_outliers_table25_dup: "col_outliers table25_dup ''V1'' = [0]"
  unfolding col_outliers_def get_col_table25_dup mean_table25 std_table25 Let_def
  by (simp add: table25_def table25_dup_def get_col_def is_outlier_def)

lemma outlier_indices_table25: "outlier_indices table25 = [24]"
  unfolding outlier_indices_def collect_indices_def
  by (simp add: columns_def column_step_def col_outliers_table25 Let_def
      table25_def[THEN arg_cong[of _ _ cols]])

lemma outlier_indices_table25_dup: "outlier_indices table25_dup = [0]"
  unfolding outlier_indices_def collect_indices_def
  by (simp add: columns_def column_step_def col_outliers_table25_dup Let_def
      table25_dup_def[THEN arg_cong[of _ _ cols]])






lemma keep_table25_dup:
  "keep_positions (outlier_indices table25_dup) (index table25_dup) =
     [1,2,3,4,5,6,7,8,9,10,11,12,13,14,15,16,17,18,19,20,21,22,23]"
  unfolding outlier_indices_table25_dup keep_positions_def
  by (simp add: table25_dup_def upt_conv_Cons)

theorem removeOutliers_equal_lengths_witness:
  "s_index labels25_dup = index table25_dup \<and>
   removeOutliers table25_dup labels25_dup =
     Inr (take_rows [1,2,3,4,5,6,7,8,9,10,11,12,13,14,15,16,17,18,19,20,21,22,23] table25_dup,
          take_items [1,2,3,4,5,6,7,8,9,10,11,12,13,14,15,16,17,18,19,20,21,22,23] labels25_dup, []) \<and>
   nrows (take_rows [1,2,3,4,5,6,7,8,9,10,11,12,13,14,15,16,17,18,19,20,21,22,23] table25_dup) = 23 \<and>
   s_len (take_items [1,2,3,4,5,6,7,8,9,10,11,12,13,14,15,16,17,18,19,20,21,22,23] labels25_dup) = 23 \<and>
   index (take_rows [1,2,3,4,5,6,7,8,9,10,11,12,13,14,15,16,17,18,19,20,21,22,23] table25_dup) =
     [1,2,3,4,5,6,7,8,9,10,11,12,13,14,15,16,17,18,19,20,21,22,23] \<and>
   s_index (take_items [1,2,3,4,5,6,7,8,9,10,11,12,13,14,15,16,17,18,19,20,21,22,23] labels25_dup) =
     [1,2,3,4,5,6,7,8,9,10,11,12,13,14,15,16,17,18,19,20,21,22,23]"
proof -
  have h: "s_index labels25_dup = index table25_dup"
    by (simp add: labels25_dup_def table25_dup_def)
  have i: "index (take_rows [1,2,3,4,5,6,7,8,9,10,11,12,13,14,15,16,17,18,19,20,21,22,23] table25_dup) =
     [1,2,3,4,5,6,7,8,9,10,11,12,13,14,15,16,17,18,19,20,21,22,23]"
    by (simp add: take_rows_def pick_def table25_dup_def)
  from removeOutliers_equal_lengths[OF h] h i show ?thesis
    unfolding Let_def keep_table25_dup by (simp add: nrows_take_rows s_len_take_items)
qed






subsection \<open>The object store\<close>


lemma alloc_ext: "alloc h ob = (h', r) \<Longrightarrow> h' = h @ [ob] \<and> r = length h"
  by (auto simp: alloc_def)

lemma copy_obj_ext: "copy_obj h r = (h', res) \<Longrightarrow> \<exists>new. h' = h @ new"
  by (auto simp: copy_obj_def alloc_def split: option.splits)

lemma drop_obj_ext: "drop_obj h ls r = (h', res) \<Longrightarrow> \<exists>new. h' = h @ new"
  by (auto simp: drop_obj_def alloc_def split: option.splits obj.splits sum.splits)

lemma removeOutliers_store_ext: "\<exists>new. fst (removeOutliers_store h xr yr) = h @ new"
proof -
  obtain h1 r1 where c1: "copy_obj h xr = (h1, r1)" by (cases "copy_obj h xr")
  obtain n1 where h1: "h1 = h @ n1" using copy_obj_ext[OF c1] by blast
  obtain h2 r2 where c2: "copy_obj h1 yr = (h2, r2)" by (cases "copy_obj h1 yr")
  obtain n2 where h2: "h2 = h1 @ n2" using copy_obj_ext[OF c2] by blast
  show ?thesis
  proof (cases r1)
    case (Inl e) then show ?thesis using c1 h1 by (simp add: removeOutliers_store_def)
  next
    case r1: (Inr nx)
    show ?thesis
    proof (cases r2)
      case (Inl e) then show ?thesis using c1 c2 r1 h1 h2 by (simp add: removeOutliers_store_def)
    next
      case r2: (Inr ny)
      show ?thesis
      proof (cases "deref h2 nx")
        case None then show ?thesis using c1 c2 r1 r2 h1 h2 by (simp add: removeOutliers_store_def)
      next
        case (Some ob)
        show ?thesis
        proof (cases ob)
          case (SR y) then show ?thesis using Some c1 c2 r1 r2 h1 h2 by (simp add: removeOutliers_store_def)
        next
          case (DF X)
          obtain h3 r3 where c3: "drop_obj h2 (outlier_indices X) nx = (h3, r3)"
            by (cases "drop_obj h2 (outlier_indices X) nx")
          obtain n3 where h3: "h3 = h2 @ n3" using drop_obj_ext[OF c3] by blast
          show ?thesis
          proof (cases r3)
            case (Inl e) then show ?thesis using Some DF c1 c2 c3 r1 r2 h1 h2 h3
              by (simp add: removeOutliers_store_def)
          next
            case r3: (Inr nX)
            obtain h4 r4 where c4: "drop_obj h3 (outlier_indices X) ny = (h4, r4)"
              by (cases "drop_obj h3 (outlier_indices X) ny")
            obtain n4 where h4: "h4 = h3 @ n4" using drop_obj_ext[OF c4] by blast
            show ?thesis using Some DF c1 c2 c3 c4 r1 r2 r3 h1 h2 h3 h4
              by (cases r4) (simp_all add: removeOutliers_store_def)
          qed
        qed
      qed
    qed
  qed
qed

lemma deref_append: "deref h r = Some ob \<Longrightarrow> deref (h @ new) r = Some ob"
  by (auto simp: deref_def nth_append split: if_splits)

lemma removeOutliers_store_bad_ref:
  "deref h xr = None \<Longrightarrow> removeOutliers_store h xr yr = (h, Inl TypeError)"
  by (simp add: removeOutliers_store_def copy_obj_def)

lemma removeOutliers_store_pure:
  assumes "deref h xr = Some (DF X)" "deref h yr = Some (SR y)"
  shows "snd (removeOutliers_store h xr yr) =
     (case removeOutliers X y of Inl e \<Rightarrow> Inl e
      | Inr (X', y', out) \<Rightarrow> Inr (length h + 2, length h + 3, out))
   \<and> (\<forall>X' y' out. removeOutliers X y = Inr (X', y', out) \<longrightarrow>
         fst (removeOutliers_store h xr yr) = h @ [DF X, SR y, DF X', SR y'])"
  using assms
  by (auto simp: removeOutliers_store_def removeOutliers_def copy_obj_def drop_obj_def alloc_def
      deref_def nth_append Let_def obj_len_def split: sum.splits if_splits)


text \<open>
  C9. removeOutliers does not change any object the caller holds: the store after the call,
  whether it returned or raised, is the store before it followed by newly allocated
  objects, so what \<open>X_train\<close> and \<open>y_train\<close> point to is what they pointed to before.
\<close>

theorem removeOutliers_store_frame:
  "(\<exists>new. fst (removeOutliers_store h X_train y_train) = h @ new) \<and>
   (\<forall>ob. deref h X_train = Some ob \<longrightarrow>
      deref (fst (removeOutliers_store h X_train y_train)) X_train = Some ob) \<and>
   (\<forall>ob. deref h y_train = Some ob \<longrightarrow>
      deref (fst (removeOutliers_store h X_train y_train)) y_train = Some ob)"
  using removeOutliers_store_ext[of h X_train y_train]
  by (auto simp: deref_append)

theorem removeOutliers_store_frame_witness:
  "deref [DF table25, SR labels25] 0 = Some (DF table25) \<and>
   deref [DF table25, SR labels25] 1 = Some (SR labels25) \<and>
   deref (fst (removeOutliers_store [DF table25, SR labels25] 0 1)) 0 = Some (DF table25) \<and>
   deref (fst (removeOutliers_store [DF table25, SR labels25] 0 1)) 1 = Some (SR labels25) \<and>
   length (fst (removeOutliers_store [DF table25, SR labels25] 0 1)) = 6"
proof -
  let ?h = "[DF table25, SR labels25] :: (int, bool) store"
  have a: "deref ?h 0 = Some (DF table25)" and b: "deref ?h 1 = Some (SR labels25)"
    by (simp_all add: deref_def)
  have i: "s_index labels25 = index table25" by (simp add: labels25_def table25_def)
  obtain X' y' where r: "removeOutliers table25 labels25 = Inr (X', y', [])"
    using removeOutliers_same_index[OF i] by blast
  from removeOutliers_store_pure[OF a b] r
  have "length (fst (removeOutliers_store ?h 0 1)) = 6" by simp
  with a b removeOutliers_store_frame[of ?h 0 1] show ?thesis by simp
qed


section \<open>Properties of customGridSearchCV\<close>

lemma update_append_notin:
  "k \<notin> fst ` set pre \<Longrightarrow> AList.update k v (pre @ rest) = pre @ AList.update k v rest"
  by (induction pre) auto

lemma set_param_shape:
  assumes "k \<notin> fst ` set pre" "prefix (map fst stale) (k # ks)"
  shows "\<exists>stale'. AList.update k v (pre @ stale) = (pre @ [(k, v)]) @ stale' \<and>
                  prefix (map fst stale') ks"
proof (cases stale)
  case Nil
  then show ?thesis using update_append_notin[OF assms(1), of v "[]"] by simp
next
  case (Cons p stale2)
  with assms(2) have "fst p = k" "prefix (map fst stale2) ks" by auto
  with Cons assms(1) show ?thesis by (cases p) (simp add: update_append_notin)
qed

lemma loops_spec:
  assumes "distinct ks" "set ks \<inter> fst ` set pre = {}"
    "current_params st = pre @ stale" "prefix (map fst stale) ks"
  shows "evaluated (loops cv repr g ks st) = evaluated st @ map ((@) pre) (combos g ks) \<and>
         scores (loops cv repr g ks st) =
           fold (\<lambda>c. AList.update (str_dict repr c) (cv c)) (map ((@) pre) (combos g ks)) (scores st) \<and>
         (\<exists>stale'. current_params (loops cv repr g ks st) = pre @ stale' \<and>
                   prefix (map fst stale') ks)"
  using assms
proof (induction ks arbitrary: st pre stale)
  case Nil
  then show ?case by (simp add: evaluate_def)
next
  case (Cons k ks)
  note outerIH = Cons.IH
  have k: "k \<notin> fst ` set pre" and dks: "distinct ks" and kks: "k \<notin> set ks"
    and disj: "set ks \<inter> fst ` set pre = {}"
    using Cons.prems by auto
  have inner: "evaluated (fold (\<lambda>v st. loops cv repr g ks (set_param k v st)) vs st) =
           evaluated st @ map ((@) pre) (concat (map (\<lambda>v. map (\<lambda>rest. (k, v) # rest) (combos g ks)) vs)) \<and>
         scores (fold (\<lambda>v st. loops cv repr g ks (set_param k v st)) vs st) =
           fold (\<lambda>c. AList.update (str_dict repr c) (cv c))
             (map ((@) pre) (concat (map (\<lambda>v. map (\<lambda>rest. (k, v) # rest) (combos g ks)) vs))) (scores st) \<and>
         (\<exists>stale'. current_params (fold (\<lambda>v st. loops cv repr g ks (set_param k v st)) vs st) = pre @ stale' \<and>
                   prefix (map fst stale') (k # ks))"
    if "current_params st = pre @ stale" "prefix (map fst stale) (k # ks)" for vs st stale
    using that
  proof (induction vs arbitrary: st stale)
    case Nil
    then show ?case by auto
  next
    case (Cons v vs)
    let ?st1 = "set_param k v st"
    obtain stale1 where s1: "current_params ?st1 = (pre @ [(k, v)]) @ stale1"
      and p1: "prefix (map fst stale1) ks"
      using set_param_shape[OF k Cons.prems(2), of v] Cons.prems(1)
      by (auto simp: set_param_def)
    have d1: "set ks \<inter> fst ` set (pre @ [(k, v)]) = {}" using disj kks by auto
    let ?st2 = "loops cv repr g ks ?st1"
    note L = outerIH[OF dks d1 s1 p1]
    from L obtain stale2 where s2: "current_params ?st2 = pre @ ((k, v) # stale2)"
      and p2: "prefix (map fst ((k, v) # stale2)) (k # ks)" by auto
    have e1: "evaluated ?st1 = evaluated st" "scores ?st1 = scores st" by (simp_all add: set_param_def)
    have m: "map ((@) (pre @ [(k, v)])) (combos g ks) = map ((@) pre) (map (\<lambda>rest. (k, v) # rest) (combos g ks))"
      by simp
    from Cons.IH[OF s2 p2] L e1 show ?case unfolding m by simp
  qed
  from inner[OF Cons.prems(3,4), of "grid_get g k"] show ?case by simp
qed

lemma loop1_as_loops:
  "loop1 cv repr g [a] (length [a]) st = loops cv repr g [a] st"
  "loop1 cv repr g [a, b] (length [a, b]) st = loops cv repr g [a, b] st"
  "loop1 cv repr g [a, b, c] (length [a, b, c]) st = loops cv repr g [a, b, c] st"
  "loop1 cv repr g [a, b, c, d] (length [a, b, c, d]) st = loops cv repr g [a, b, c, d] st"
  "loop1 cv repr g [a, b, c, d, e] (length [a, b, c, d, e]) st = loops cv repr g [a, b, c, d, e] st"
  by (simp_all add: loop1_def loop2_def loop3_def loop4_def loop5_def Let_def)

lemma short_list_cases:
  assumes "1 \<le> length ks" "length ks \<le> 5"
  obtains a where "ks = [a]" | a b where "ks = [a, b]" | a b c where "ks = [a, b, c]"
  | a b c d where "ks = [a, b, c, d]" | a b c d e where "ks = [a, b, c, d, e]"
proof -
  from assms have "length ks = 1 \<or> length ks = 2 \<or> length ks = 3 \<or> length ks = 4 \<or> length ks = 5"
    by arith
  then show thesis
    using that by (auto simp: length_Suc_conv numeral_eq_Suc)
qed

lemma loop1_loops:
  assumes "1 \<le> length ks" "length ks \<le> 5"
  shows "loop1 cv repr g ks (length ks) st = loops cv repr g ks st"
  using assms by (rule short_list_cases) (simp_all only: loop1_as_loops)

lemma length_combos: "length (combos g ks) = prod_list (map (\<lambda>k. length (grid_get g k)) ks)"
proof (induction ks)
  case Nil
  then show ?case by simp
next
  case (Cons k ks)
  have "length (concat (map (\<lambda>v. map (\<lambda>rest. (k, v) # rest) (combos g ks)) vs))
        = length vs * length (combos g ks)" for vs
    by (induction vs) simp_all
  with Cons show ?case by simp
qed

lemma grid_get_fst:
  assumes "distinct (map fst g)" "kv \<in> set g"
  shows "grid_get g (fst kv) = snd kv"
  using assms by (cases kv) (simp add: grid_get_def)

lemma prod_list_perm:
  "mset xs = mset ys \<Longrightarrow> prod_list (map f xs) = prod_list (map (f :: 'a \<Rightarrow> nat) ys)"
  by (metis mset_map prod_mset_prod_list)

lemma prod_sorted_keys:
  assumes "distinct (map fst g)"
  shows "prod_list (map (\<lambda>k. length (grid_get g k)) (sort (map fst g)))
       = prod_list (map (\<lambda>kv. length (snd kv)) g)"
proof -
  have "prod_list (map (\<lambda>k. length (grid_get g k)) (sort (map fst g)))
      = prod_list (map (\<lambda>k. length (grid_get g k)) (map fst g))"
    by (rule prod_list_perm) simp
  also have "map (\<lambda>k. length (grid_get g k)) (map fst g) = map (\<lambda>kv. length (snd kv)) g"
    using grid_get_fst[OF assms] by simp
  finally show ?thesis .
qed

lemma append_Nil_fun: "(@) [] = (\<lambda>x. x)"
  by (rule ext) simp

lemma update_fresh: "k \<notin> fst ` set al \<Longrightarrow> AList.update k v al = al @ [(k, v)]"
  by (induction al) auto

lemma fold_update_distinct:
  assumes "distinct (map f cs)" "f ` set cs \<inter> fst ` set al = {}"
  shows "fold (\<lambda>c. AList.update (f c) (h c)) cs al = al @ map (\<lambda>c. (f c, h c)) cs"
  using assms
proof (induction cs arbitrary: al)
  case Nil
  then show ?case by simp
next
  case (Cons c cs)
  have fr: "f c \<notin> fst ` set al" using Cons.prems(2) by auto
  have "f ` set cs \<inter> fst ` set (al @ [(f c, h c)]) = {}"
    using Cons.prems by auto
  with Cons.IH[of "al @ [(f c, h c)]"] Cons.prems(1) fr show ?case
    by (simp add: update_fresh)
qed

lemma scores_of_distinct:
  "distinct (map (str_dict repr) cs) \<Longrightarrow>
   scores_of cv repr cs = map (\<lambda>c. (str_dict repr c, cv c)) cs"
  using fold_update_distinct[of "str_dict repr" cs "[]" cv] by (simp add: scores_of_def)

lemma grid_enumeration_combos:
  assumes "distinct (map fst g)" "1 \<le> length g" "length g \<le> 5"
  shows "\<exists>st. grid_enumeration cv repr g = Inr st \<and>
     evaluated st = combos g (sort (map fst g)) \<and>
     scores st = scores_of cv repr (combos g (sort (map fst g)))"
proof -
  let ?ks = "sort (map fst g)"
  let ?st0 = "\<lparr>current_params = [], scores = [], evaluated = []\<rparr> :: 'a search_state"
  have l: "1 \<le> length ?ks" "length ?ks \<le> 5" using assms by simp_all
  have d: "distinct ?ks" using assms(1) by simp
  have e: "grid_enumeration cv repr g = Inr (loops cv repr g ?ks ?st0)"
  proof -
    from l(1) have "?ks \<noteq> []" by (cases ?ks) simp_all
    then show ?thesis
      by (simp add: grid_enumeration_def Let_def loop1_loops[OF l, simplified])
  qed
  from loops_spec[of ?ks "[]" ?st0 "[]" cv repr g] d
  show ?thesis unfolding e by (simp add: scores_of_def append_Nil_fun)
qed

lemma fold_update_keys:
  "fst ` set (fold (\<lambda>c. AList.update (f c) (h c)) cs al) = fst ` set al \<union> f ` set cs"
  by (induction cs arbitrary: al) (auto simp: dom_update)

lemma fold_update_distinct_keys:
  "distinct (map fst al) \<Longrightarrow> distinct (map fst (fold (\<lambda>c. AList.update (f c) (h c)) cs al))"
  by (induction cs arbitrary: al) (simp_all add: distinct_update)

lemma scores_of_keys: "fst ` set (scores_of cv repr cs) = str_dict repr ` set cs"
  using fold_update_keys[of "str_dict repr" cv cs "[]"] by (simp add: scores_of_def)

lemma scores_of_distinct_keys: "distinct (map fst (scores_of cv repr cs))"
  using fold_update_distinct_keys[of "[]" "str_dict repr" cv cs] by (simp add: scores_of_def)

lemma combos_nonempty:
  "\<forall>k \<in> set ks. grid_get g k \<noteq> [] \<Longrightarrow> combos g ks \<noteq> []"
proof (induction ks)
  case Nil
  then show ?case by simp
next
  case (Cons k ks)
  then obtain v vs c cs where "grid_get g k = v # vs" "combos g ks = c # cs"
    by (cases "grid_get g k"; cases "combos g ks") auto
  then show ?case by simp
qed

lemma grid_nonempty_values:
  assumes "distinct (map fst g)" "list_all (\<lambda>kv. snd kv \<noteq> []) g"
  shows "\<forall>k \<in> set (sort (map fst g)). grid_get g k \<noteq> []"
  using assms grid_get_fst[OF assms(1)] by (auto simp: list_all_iff)

lemma scores_of_nonempty: "cs \<noteq> [] \<Longrightarrow> scores_of cv repr cs \<noteq> []"
  using scores_of_keys[of cv repr cs] by (cases "scores_of cv repr cs") auto

lemma py_max_mem: "xs \<noteq> [] \<Longrightarrow> \<exists>m. py_max xs = Inr m \<and> m \<in> set xs \<and> (\<forall>x \<in> set xs. x \<le> m)"
proof (cases xs)
  case Nil
  then show "xs \<noteq> [] \<Longrightarrow> ?thesis" by simp
next
  case (Cons x ys)
  have "fold max ys x = Max (set (x # ys))" by (simp only: Max.set_eq_fold)
  moreover have "Max (set (x # ys)) \<in> set (x # ys)" by (rule Max_in) simp_all
  moreover have "\<forall>z \<in> set (x # ys). z \<le> Max (set (x # ys))" by simp
  ultimately show ?thesis using Cons by simp
qed

lemma best_loop_raises:
  assumes "glob ''scaler_str'' = None" "\<forall>k \<in> set keys. map_of sc k \<noteq> None"
    "\<exists>k \<in> set keys. \<exists>s. map_of sc k = Some s \<and> metric s = m"
  shows "best_loop glob metric m sc rs orm pca keys = ([], Inl (NameError ''scaler_str''))"
  using assms(2,3)
proof (induction keys)
  case Nil
  then show ?case by simp
next
  case (Cons k keys)
  then obtain s where s: "map_of sc k = Some s" by auto
  show ?case
  proof (cases "metric s = m")
    case True
    with s assms(1) show ?thesis by simp
  next
    case False
    with Cons.prems s have "\<exists>k \<in> set keys. \<exists>s. map_of sc k = Some s \<and> metric s = m" by auto
    with Cons s False show ?thesis by simp
  qed
qed

lemma best_loop_finds:
  assumes "glob ''scaler_str'' = Some g" "\<forall>k \<in> set keys. map_of sc k \<noteq> None"
    "\<exists>k \<in> set keys. \<exists>s. map_of sc k = Some s \<and> metric s = m"
  shows "\<exists>key s. best_loop glob metric m sc rs orm pca keys =
            ([BestLine g s], Inr (RetBest key s g rs orm pca)) \<and>
          map_of sc key = Some s \<and> metric s = m"
  using assms(2,3)
proof (induction keys)
  case Nil
  then show ?case by simp
next
  case (Cons k keys)
  then obtain s where s: "map_of sc k = Some s" by auto
  show ?case
  proof (cases "metric s = m")
    case True
    with s assms(1) show ?thesis by simp
  next
    case False
    with Cons.prems s have "\<exists>k \<in> set keys. \<exists>s. map_of sc k = Some s \<and> metric s = m" by auto
    with Cons s False show ?thesis by simp
  qed
qed

lemma report_best_raises:
  assumes "glob ''scaler_str'' = None" "sc \<noteq> []" "distinct (map fst sc)"
  shows "report glob ''recall'' sc rs orm pca = ([], Inl (NameError ''scaler_str''))"
proof -
  from assms(2) obtain m where m: "py_max (map recall (map snd sc)) = Inr m"
    and mem: "m \<in> set (map recall (map snd sc))"
    using py_max_mem[of "map recall (map snd sc)"] by auto
  from mem obtain k s where ks: "(k, s) \<in> set sc" "recall s = m" by auto
  with assms(3) have "map_of sc k = Some s" by simp
  with ks have ex: "\<exists>k \<in> set (map fst sc). \<exists>s. map_of sc k = Some s \<and> recall s = m"
    by force
  have all: "\<forall>k \<in> set (map fst sc). map_of sc k \<noteq> None"
    by (auto simp: map_of_eq_None_iff)
  from best_loop_raises[of glob "map fst sc" sc recall m rs orm pca, OF assms(1) all ex] m
  show ?thesis by (simp add: report_def)
qed

text \<open>
  Were \<open>scaler_str\<close> defined, the \<open>recall\<close> branch would print and return an entry of
  greatest recall.
\<close>

lemma report_best_with_scaler_str:
  assumes "glob ''scaler_str'' = Some g" "sc \<noteq> []" "distinct (map fst sc)"
  shows "\<exists>key s. report glob ''recall'' sc rs orm pc = ([BestLine g s], Inr (RetBest key s g rs orm pc)) \<and>
           (key, s) \<in> set sc \<and> (\<forall>kv \<in> set sc. recall (snd kv) \<le> recall s)"
proof -
  from assms(2) obtain m where m: "py_max (map recall (map snd sc)) = Inr m"
    and mem: "m \<in> set (map recall (map snd sc))"
    and mx: "\<forall>x \<in> set (map recall (map snd sc)). x \<le> m"
    using py_max_mem[of "map recall (map snd sc)"] by auto
  from mem obtain k s where ks: "(k, s) \<in> set sc" "recall s = m" by auto
  with assms(3) have "map_of sc k = Some s" by simp
  with ks have ex: "\<exists>k \<in> set (map fst sc). \<exists>s. map_of sc k = Some s \<and> recall s = m"
    by force
  have all: "\<forall>k \<in> set (map fst sc). map_of sc k \<noteq> None"
    by (auto simp: map_of_eq_None_iff)
  from best_loop_finds[of glob g "map fst sc" sc recall m rs orm pc, OF assms(1) all ex]
  obtain key s where b: "best_loop glob recall m sc rs orm pc (map fst sc) =
      ([BestLine g s], Inr (RetBest key s g rs orm pc))" "map_of sc key = Some s" "recall s = m"
    by blast
  from b(2) have "(key, s) \<in> set sc" by (rule map_of_SomeD)
  with b m mx show ?thesis by (auto simp: report_def)
qed

lemma map_insort_key: "map f (insort_key f x xs) = insort (f x) (map f xs)"
  by (induction xs) simp_all

lemma map_sort_key: "map f (sort_key f xs) = sort (map f xs)"
  by (induction xs) (simp_all add: map_insort_key)

lemma custom_loop_items:
  "\<forall>kv \<in> set L. map_of sc (fst kv) = Some (snd kv) \<Longrightarrow>
   custom_loop sc (map fst L) =
     (map (\<lambda>kv. ScoreLine (fst kv) (snd kv))
        (filter (\<lambda>kv. 0.5 < recall (snd kv) \<and> 0.2 < precision (snd kv)) L), None)"
  by (induction L) simp_all

lemma report_custom:
  fixes glob :: "string \<Rightarrow> 'g option"
  assumes "distinct (map fst sc)"
  shows "report glob ''custom'' sc rs orm pca =
     (map (\<lambda>kv. ScoreLine (fst kv) (snd kv))
        (filter (\<lambda>kv. 0.5 < recall (snd kv) \<and> 0.2 < precision (snd kv)) (sort_key fst sc)),
      Inr (RetScores sc))"
proof -
  have "\<forall>kv \<in> set (sort_key fst sc). map_of sc (fst kv) = Some (snd kv)"
    using assms by auto
  then have "custom_loop sc (map fst (sort_key fst sc)) =
     (map (\<lambda>kv. ScoreLine (fst kv) (snd kv) :: 'g print_line)
        (filter (\<lambda>kv. 0.5 < recall (snd kv) \<and> 0.2 < precision (snd kv)) (sort_key fst sc)), None)"
    by (rule custom_loop_items)
  then show ?thesis
    by (simp add: report_def map_sort_key)
qed

lemma report_all:
  assumes "distinct (map fst sc)" "sc \<noteq> []"
  shows "\<exists>key s. report glob ''all'' sc rs orm pca = ([ScoreLine key s], Inr (RetScores sc)) \<and>
           (key, s) \<in> set sc \<and> (\<forall>k \<in> fst ` set sc. key \<le> k)"
proof -
  from assms(2) have "sort (map fst sc) \<noteq> []" by (cases sc) auto
  then obtain key rest where kr: "sort (map fst sc) = key # rest" by (cases "sort (map fst sc)") auto
  have "sorted (key # rest)" "set (key # rest) = fst ` set sc"
    unfolding kr[symmetric] by simp_all
  then have least: "\<forall>k \<in> fst ` set sc. key \<le> k" and "key \<in> fst ` set sc" by auto
  then obtain s where s: "(key, s) \<in> set sc" by auto
  with assms(1) have "map_of sc key = Some s" by simp
  with kr s least show ?thesis by (simp add: report_def)
qed

lemma insort_key_map:
  "insort_key fst (g x) (map g xs) = map g (insort_key (\<lambda>c. fst (g c)) x xs)"
  by (induction xs) simp_all

lemma sort_key_map:
  "sort_key fst (map g cs) = map g (sort_key (\<lambda>c. fst (g c)) cs)"
  by (induction cs) (simp_all add: insort_key_map)

lemma map_of_fold_update:
  "map_of (fold (\<lambda>c. AList.update (f c) (h c)) cs al) =
   map_of (rev (map (\<lambda>c. (f c, h c)) cs) @ al)"
proof (induction cs arbitrary: al)
  case Nil
  then show ?case by simp
next
  case (Cons c cs)
  have "map_of (fold (\<lambda>c. AList.update (f c) (h c)) (c # cs) al) =
        map_of (rev (map (\<lambda>c. (f c, h c)) cs) @ AList.update (f c) (h c) al)"
    using Cons.IH[of "AList.update (f c) (h c) al"] by simp
  also have "\<dots> = map_of (rev (map (\<lambda>c. (f c, h c)) cs) @ (f c, h c) # al)"
    by (simp add: update_conv map_add_def fun_eq_iff split: option.splits)
  finally show ?case by simp
qed

lemma scores_of_last_wins:
  "map_of (scores_of cv repr cs) = map_of (rev (map (\<lambda>c. (str_dict repr c, cv c)) cs))"
  using map_of_fold_update[of "str_dict repr" cv cs "[]"] by (simp add: scores_of_def)


text \<open>
  C4, as amended. For a grid of one to five names and scoring \<open>custom\<close>,
  customGridSearchCV evaluates every combination and returns the whole score mapping,
  which holds, under each printed form of a combination, the scores of the last
  combination evaluated that prints so. It prints, in sorted key order, exactly the
  entries of that mapping whose recall is above 0.5 and whose precision is above 0.2. When
  the combinations have pairwise distinct printed forms, the mapping has one entry per
  combination and the lines printed are exactly those of the combinations whose recall is
  above 0.5 and whose precision is above 0.2.
\<close>

theorem custom_scoring_prints_passing_entries:
  fixes glob :: "string \<Rightarrow> 'g option"
  assumes "distinct (map fst param_grid)" "1 \<le> length param_grid" "length param_grid \<le> 5"
  shows "let cs = combos param_grid (sort (map fst param_grid)); sc = scores_of cv repr cs in
     customGridSearchCV glob cv repr param_grid ''custom'' resampler outlier_removal pca =
       \<lparr>models = cs,
        printed = map (\<lambda>kv. ScoreLine (fst kv) (snd kv))
           (filter (\<lambda>kv. 0.5 < recall (snd kv) \<and> 0.2 < precision (snd kv)) (sort_key fst sc)),
        outcome = Inr (RetScores sc)\<rparr> \<and>
     fst ` set sc = str_dict repr ` set cs \<and>
     map_of sc = map_of (rev (map (\<lambda>c. (str_dict repr c, cv c)) cs)) \<and>
     (distinct (map (str_dict repr) cs) \<longrightarrow>
        sc = map (\<lambda>c. (str_dict repr c, cv c)) cs \<and>
        printed (customGridSearchCV glob cv repr param_grid ''custom'' resampler outlier_removal pca) =
          map (\<lambda>c. ScoreLine (str_dict repr c) (cv c))
            (filter (\<lambda>c. 0.5 < recall (cv c) \<and> 0.2 < precision (cv c))
               (sort_key (str_dict repr) cs)))"
proof -
  let ?cs = "combos param_grid (sort (map fst param_grid))"
  let ?sc = "scores_of cv repr ?cs"
  obtain st where st: "grid_enumeration cv repr param_grid = Inr st"
    "evaluated st = ?cs" "scores st = ?sc"
    using grid_enumeration_combos[OF assms] by blast
  have run: "customGridSearchCV glob cv repr param_grid ''custom'' resampler outlier_removal pca =
       \<lparr>models = ?cs,
        printed = map (\<lambda>kv. ScoreLine (fst kv) (snd kv))
           (filter (\<lambda>kv. 0.5 < recall (snd kv) \<and> 0.2 < precision (snd kv)) (sort_key fst ?sc)),
        outcome = Inr (RetScores ?sc)\<rparr>"
    by (simp add: customGridSearchCV_def st report_custom[OF scores_of_distinct_keys])
  have d: "?sc = map (\<lambda>c. (str_dict repr c, cv c)) ?cs \<and>
        map (\<lambda>kv. ScoreLine (fst kv) (snd kv) :: 'g print_line)
           (filter (\<lambda>kv. 0.5 < recall (snd kv) \<and> 0.2 < precision (snd kv)) (sort_key fst ?sc)) =
          map (\<lambda>c. ScoreLine (str_dict repr c) (cv c))
            (filter (\<lambda>c. 0.5 < recall (cv c) \<and> 0.2 < precision (cv c))
               (sort_key (str_dict repr) ?cs))"
    if "distinct (map (str_dict repr) ?cs)"
  proof -
    have e: "?sc = map (\<lambda>c. (str_dict repr c, cv c)) ?cs" by (rule scores_of_distinct[OF that])
    show ?thesis unfolding e
      by (simp add: sort_key_map filter_map comp_def)
  qed
  show ?thesis unfolding Let_def run
    using d by (auto simp: scores_of_keys scores_of_last_wins)
qed

text \<open>
  C1. Scoring \<open>recall\<close> is specified to return the tuple of the best combination. On
  the module as written it never does: for every grid of one to five names, each with a
  candidate, the first key reaching the maximum makes the function evaluate \<open>scaler_str\<close>,
  which is not defined, and NameError is raised with nothing printed.
\<close>

theorem recall_scoring_raises_NameError:
  assumes "distinct (map fst param_grid)" "1 \<le> length param_grid" "length param_grid \<le> 5"
    "list_all (\<lambda>kv. snd kv \<noteq> []) param_grid"
  shows "customGridSearchCV module_globals cv repr param_grid ''recall'' resampler outlier_removal pca =
       \<lparr>models = combos param_grid (sort (map fst param_grid)), printed = [],
        outcome = Inl (NameError ''scaler_str'')\<rparr>"
proof -
  let ?cs = "combos param_grid (sort (map fst param_grid))"
  obtain st where st: "grid_enumeration cv repr param_grid = Inr st"
    "evaluated st = ?cs" "scores st = scores_of cv repr ?cs"
    using grid_enumeration_combos[OF assms(1-3)] by blast
  have ne: "scores_of cv repr ?cs \<noteq> []"
    by (rule scores_of_nonempty, rule combos_nonempty, rule grid_nonempty_values[OF assms(1,4)])
  have g: "module_globals ''scaler_str'' = None" by (simp add: module_globals_def)
  show ?thesis
    by (simp add: customGridSearchCV_def st report_best_raises[of module_globals, OF g ne scores_of_distinct_keys[of cv repr ?cs]])
qed

text \<open>
  C2. Scoring \<open>precision\<close> is specified to return the tuple of the best combination.
  Line 257 compares (\<open>==\<close>) where the sibling branches assign: \<open>max_score\<close> is read before
  any assignment and UnboundLocalError is raised, whatever the scores.
\<close>

theorem precision_scoring_raises_UnboundLocalError:
  assumes "1 \<le> length param_grid"
  shows "printed (customGridSearchCV glob cv repr param_grid ''precision'' resampler outlier_removal pca) = [] \<and>
         outcome (customGridSearchCV glob cv repr param_grid ''precision'' resampler outlier_removal pca) =
           Inl (UnboundLocalError ''max_score'')"
proof -
  from assms have "sort (map fst param_grid) \<noteq> []" by (cases param_grid) auto
  then obtain st where "grid_enumeration cv repr param_grid = Inr st"
    by (simp add: grid_enumeration_def Let_def)
  then show ?thesis by (simp add: customGridSearchCV_def report_def)
qed

text \<open>
  C3. Scoring \<open>all\<close> is specified to print every combination's scores. The \<open>return\<close>
  of line 244 stands inside the loop: for every grid of one to five names, each with a
  candidate, one entry is printed (that of the least key) and the full mapping is returned.
\<close>

theorem all_scoring_prints_one_entry:
  assumes "distinct (map fst param_grid)" "1 \<le> length param_grid" "length param_grid \<le> 5"
    "list_all (\<lambda>kv. snd kv \<noteq> []) param_grid"
  shows "\<exists>key s. customGridSearchCV glob cv repr param_grid ''all'' resampler outlier_removal pca =
       \<lparr>models = combos param_grid (sort (map fst param_grid)),
        printed = [ScoreLine key s],
        outcome = Inr (RetScores (scores_of cv repr (combos param_grid (sort (map fst param_grid)))))\<rparr>"
proof -
  let ?cs = "combos param_grid (sort (map fst param_grid))"
  obtain st where st: "grid_enumeration cv repr param_grid = Inr st"
    "evaluated st = ?cs" "scores st = scores_of cv repr ?cs"
    using grid_enumeration_combos[OF assms(1-3)] by blast
  have ne: "scores_of cv repr ?cs \<noteq> []"
    by (rule scores_of_nonempty, rule combos_nonempty, rule grid_nonempty_values[OF assms(1,4)])
  from report_all[OF scores_of_distinct_keys[of cv repr ?cs] ne, of glob resampler outlier_removal pca]
  obtain key s where "report glob ''all'' (scores_of cv repr ?cs) resampler outlier_removal pca
      = ([ScoreLine key s], Inr (RetScores (scores_of cv repr ?cs)))" by blast
  then show ?thesis by (simp add: customGridSearchCV_def st)
qed

text \<open>
  C5, as amended. For a grid of one to five names, the models instantiated and evaluated
  are exactly the elements of the Cartesian product over the sorted names, each once and in
  order, so their number is the product of the candidate counts. When the combinations
  have pairwise distinct printed forms, the score mapping has one entry per combination.
\<close>

theorem grid_enumeration_cartesian_product:
  assumes "distinct (map fst param_grid)" "1 \<le> length param_grid" "length param_grid \<le> 5"
  shows "\<exists>st. grid_enumeration cv repr param_grid = Inr st \<and>
     evaluated st = combos param_grid (sort (map fst param_grid)) \<and>
     length (evaluated st) = prod_list (map (\<lambda>kv. length (snd kv)) param_grid) \<and>
     (distinct (map (str_dict repr) (evaluated st)) \<longrightarrow>
        scores st = map (\<lambda>c. (str_dict repr c, cv c)) (evaluated st) \<and>
        length (scores st) = prod_list (map (\<lambda>kv. length (snd kv)) param_grid))"
proof -
  let ?cs = "combos param_grid (sort (map fst param_grid))"
  obtain st where st: "grid_enumeration cv repr param_grid = Inr st"
    "evaluated st = ?cs" "scores st = scores_of cv repr ?cs"
    using grid_enumeration_combos[OF assms(1-3)] by blast
  have len: "length ?cs = prod_list (map (\<lambda>kv. length (snd kv)) param_grid)"
    by (simp add: length_combos prod_sorted_keys[OF assms(1)])
  show ?thesis using st len by (auto simp: scores_of_distinct)
qed

lemma knn_grid_ok:
  "distinct (map fst knn_grid)" "1 \<le> length knn_grid" "length knn_grid \<le> 5"
  "list_all (\<lambda>kv. snd kv \<noteq> []) knn_grid"
  by (simp_all add: knn_grid_def)

lemma combos_knn:
  "combos knn_grid (sort (map fst knn_grid)) =
     [[(''n_neighbors'', ''1'')], [(''n_neighbors'', ''3'')], [(''n_neighbors'', ''5'')]]"
  by (simp add: knn_grid_def grid_get_def)

lemma scores_knn:
  "scores_of knn_cv (\<lambda>v. v) [[(''n_neighbors'', ''1'')], [(''n_neighbors'', ''3'')], [(''n_neighbors'', ''5'')]] =
     [(str_dict (\<lambda>v. v) [(''n_neighbors'', ''1'')], \<lparr>recall = 0.6, precision = 0.3, f1 = 0.4\<rparr>),
      (str_dict (\<lambda>v. v) [(''n_neighbors'', ''3'')], \<lparr>recall = 0.8, precision = 0.1, f1 = 0.2\<rparr>),
      (str_dict (\<lambda>v. v) [(''n_neighbors'', ''5'')], \<lparr>recall = 0.4, precision = 0.5, f1 = 0.45\<rparr>)]"
  by (simp add: scores_of_def knn_cv_def str_dict_def str_item_def)

theorem recall_scoring_raises_NameError_witness:
  "distinct (map fst knn_grid) \<and> 1 \<le> length knn_grid \<and> length knn_grid \<le> 5 \<and>
   list_all (\<lambda>kv. snd kv \<noteq> []) knn_grid \<and>
   customGridSearchCV module_globals knn_cv (\<lambda>v. v) knn_grid ''recall'' () False (None :: unit option) =
     \<lparr>models = [[(''n_neighbors'', ''1'')], [(''n_neighbors'', ''3'')], [(''n_neighbors'', ''5'')]],
      printed = [], outcome = Inl (NameError ''scaler_str'')\<rparr>"
  using knn_grid_ok recall_scoring_raises_NameError[OF knn_grid_ok, where cv = knn_cv and repr = "\<lambda>v. v" and resampler = "()"
      and outlier_removal = False and pca = "None :: unit option"]
  by (simp add: combos_knn)

theorem precision_scoring_raises_UnboundLocalError_witness:
  "1 \<le> length knn_grid \<and>
   printed (customGridSearchCV module_globals knn_cv (\<lambda>v. v) knn_grid ''precision'' () False (None :: unit option)) = [] \<and>
   outcome (customGridSearchCV module_globals knn_cv (\<lambda>v. v) knn_grid ''precision'' () False (None :: unit option)) =
     Inl (UnboundLocalError ''max_score'')"
  using knn_grid_ok(2) precision_scoring_raises_UnboundLocalError[OF knn_grid_ok(2), where glob = module_globals and cv = knn_cv and repr = "\<lambda>v. v"
      and resampler = "()" and outlier_removal = False and pca = "None :: unit option"]
  by simp

lemma run_knn_all:
  "customGridSearchCV module_globals knn_cv (\<lambda>v. v) knn_grid ''all'' () False (None :: unit option) =
     \<lparr>models = [[(''n_neighbors'', ''1'')], [(''n_neighbors'', ''3'')], [(''n_neighbors'', ''5'')]],
      printed = [ScoreLine (str_dict (\<lambda>v. v) [(''n_neighbors'', ''1'')])
                   \<lparr>recall = 0.6, precision = 0.3, f1 = 0.4\<rparr>],
      outcome = Inr (RetScores
        [(str_dict (\<lambda>v. v) [(''n_neighbors'', ''1'')], \<lparr>recall = 0.6, precision = 0.3, f1 = 0.4\<rparr>),
         (str_dict (\<lambda>v. v) [(''n_neighbors'', ''3'')], \<lparr>recall = 0.8, precision = 0.1, f1 = 0.2\<rparr>),
         (str_dict (\<lambda>v. v) [(''n_neighbors'', ''5'')], \<lparr>recall = 0.4, precision = 0.5, f1 = 0.45\<rparr>)])\<rparr>"
  by (simp add: customGridSearchCV_def grid_enumeration_def knn_grid_def loop1_def Let_def
      grid_get_def set_param_def evaluate_def knn_cv_def report_def str_dict_def str_item_def)

theorem custom_scoring_prints_passing_entries_witness:
  "distinct (map fst knn_grid) \<and> 1 \<le> length knn_grid \<and> length knn_grid \<le> 5 \<and>
   distinct (map (str_dict (\<lambda>v. v)) (combos knn_grid (sort (map fst knn_grid)))) \<and>
   customGridSearchCV module_globals knn_cv (\<lambda>v. v) knn_grid ''custom'' () False (None :: unit option) =
     \<lparr>models = [[(''n_neighbors'', ''1'')], [(''n_neighbors'', ''3'')], [(''n_neighbors'', ''5'')]],
      printed = [ScoreLine (str_dict (\<lambda>v. v) [(''n_neighbors'', ''1'')])
                   \<lparr>recall = 0.6, precision = 0.3, f1 = 0.4\<rparr>],
      outcome = Inr (RetScores
        [(str_dict (\<lambda>v. v) [(''n_neighbors'', ''1'')], \<lparr>recall = 0.6, precision = 0.3, f1 = 0.4\<rparr>),
         (str_dict (\<lambda>v. v) [(''n_neighbors'', ''3'')], \<lparr>recall = 0.8, precision = 0.1, f1 = 0.2\<rparr>),
         (str_dict (\<lambda>v. v) [(''n_neighbors'', ''5'')], \<lparr>recall = 0.4, precision = 0.5, f1 = 0.45\<rparr>)])\<rparr>"
proof -
  have srt: "sort_key fst (scores_of knn_cv (\<lambda>v. v)
       [[(''n_neighbors'', ''1'')], [(''n_neighbors'', ''3'')], [(''n_neighbors'', ''5'')]]) =
     [(str_dict (\<lambda>v. v) [(''n_neighbors'', ''1'')], \<lparr>recall = 0.6, precision = 0.3, f1 = 0.4\<rparr>),
      (str_dict (\<lambda>v. v) [(''n_neighbors'', ''3'')], \<lparr>recall = 0.8, precision = 0.1, f1 = 0.2\<rparr>),
      (str_dict (\<lambda>v. v) [(''n_neighbors'', ''5'')], \<lparr>recall = 0.4, precision = 0.5, f1 = 0.45\<rparr>)]"
    unfolding scores_knn by (simp add: str_dict_def str_item_def)
  have dst: "distinct (map (str_dict (\<lambda>v. v)) (combos knn_grid (sort (map fst knn_grid))))"
    unfolding combos_knn by (simp add: str_dict_def str_item_def)
  from custom_scoring_prints_passing_entries[OF knn_grid_ok(1-3), where glob = module_globals and cv = knn_cv and repr = "\<lambda>v. v"
      and resampler = "()" and outlier_removal = False and pca = "None :: unit option"]
  have "customGridSearchCV module_globals knn_cv (\<lambda>v. v) knn_grid ''custom'' () False (None :: unit option) =
       \<lparr>models = combos knn_grid (sort (map fst knn_grid)),
        printed = map (\<lambda>kv. ScoreLine (fst kv) (snd kv))
           (filter (\<lambda>kv. 0.5 < recall (snd kv) \<and> 0.2 < precision (snd kv))
              (sort_key fst (scores_of knn_cv (\<lambda>v. v) (combos knn_grid (sort (map fst knn_grid)))))),
        outcome = Inr (RetScores (scores_of knn_cv (\<lambda>v. v) (combos knn_grid (sort (map fst knn_grid)))))\<rparr>"
    unfolding Let_def by blast
  then show ?thesis using knn_grid_ok dst
    unfolding combos_knn srt by (simp add: scores_knn)
qed


text \<open>
  A combination that passes both thresholds is not printed when a later combination with
  the same printed form does not: in \<open>clash_grid\<close> the first combination evaluated has
  recall and precision 0.9, the last one overwrites its entry, and nothing is printed.
\<close>

theorem custom_scoring_overwritten_counterexample:
  "distinct (map fst clash_grid) \<and> length clash_grid = 2 \<and>
   list_all (\<lambda>kv. snd kv \<noteq> [] \<and> distinct (snd kv)) clash_grid \<and>
   [(''a'', ''1''), (''b'', ''2, '' @ [CHR 0x27] @ ''b'' @ [CHR 0x27] @ '': 3'')] \<in>
     set (models (customGridSearchCV module_globals clash_cv (\<lambda>v. v) clash_grid ''custom'' () False
            (None :: unit option))) \<and>
   0.5 < recall (clash_cv [(''a'', ''1''), (''b'', ''2, '' @ [CHR 0x27] @ ''b'' @ [CHR 0x27] @ '': 3'')]) \<and>
   0.2 < precision (clash_cv [(''a'', ''1''), (''b'', ''2, '' @ [CHR 0x27] @ ''b'' @ [CHR 0x27] @ '': 3'')]) \<and>
   printed (customGridSearchCV module_globals clash_cv (\<lambda>v. v) clash_grid ''custom'' () False
            (None :: unit option)) = []"
  by (simp add: clash_grid_def clash_cv_def customGridSearchCV_def grid_enumeration_def loop1_def
      loop2_def Let_def grid_get_def set_param_def evaluate_def str_dict_def str_item_def report_def)

theorem all_scoring_prints_one_entry_witness:
  "distinct (map fst knn_grid) \<and> 1 \<le> length knn_grid \<and> length knn_grid \<le> 5 \<and>
   list_all (\<lambda>kv. snd kv \<noteq> []) knn_grid \<and>
   customGridSearchCV module_globals knn_cv (\<lambda>v. v) knn_grid ''all'' () False (None :: unit option) =
     \<lparr>models = [[(''n_neighbors'', ''1'')], [(''n_neighbors'', ''3'')], [(''n_neighbors'', ''5'')]],
      printed = [ScoreLine (str_dict (\<lambda>v. v) [(''n_neighbors'', ''1'')])
                   \<lparr>recall = 0.6, precision = 0.3, f1 = 0.4\<rparr>],
      outcome = Inr (RetScores
        [(str_dict (\<lambda>v. v) [(''n_neighbors'', ''1'')], \<lparr>recall = 0.6, precision = 0.3, f1 = 0.4\<rparr>),
         (str_dict (\<lambda>v. v) [(''n_neighbors'', ''3'')], \<lparr>recall = 0.8, precision = 0.1, f1 = 0.2\<rparr>),
         (str_dict (\<lambda>v. v) [(''n_neighbors'', ''5'')], \<lparr>recall = 0.4, precision = 0.5, f1 = 0.45\<rparr>)])\<rparr>"
proof -
  from all_scoring_prints_one_entry[OF knn_grid_ok, where glob = module_globals and cv = knn_cv and repr = "\<lambda>v. v"
      and resampler = "()" and outlier_removal = False and pca = "None :: unit option"]
  obtain key s where r: "customGridSearchCV module_globals knn_cv (\<lambda>v. v) knn_grid ''all'' () False
        (None :: unit option) =
     \<lparr>models = combos knn_grid (sort (map fst knn_grid)), printed = [ScoreLine key s],
      outcome = Inr (RetScores (scores_of knn_cv (\<lambda>v. v) (combos knn_grid (sort (map fst knn_grid)))))\<rparr>"
    by blast
  have "printed (customGridSearchCV module_globals knn_cv (\<lambda>v. v) knn_grid ''all'' () False
        (None :: unit option)) = [ScoreLine (str_dict (\<lambda>v. v) [(''n_neighbors'', ''1'')])
                   \<lparr>recall = 0.6, precision = 0.3, f1 = 0.4\<rparr>]"
    by (simp add: run_knn_all)
  with r have "[ScoreLine key s] = [ScoreLine (str_dict (\<lambda>v. v) [(''n_neighbors'', ''1'')])
                   \<lparr>recall = 0.6, precision = 0.3, f1 = 0.4\<rparr> :: string print_line]" by simp
  with r knn_grid_ok show ?thesis by (simp add: combos_knn scores_knn)
qed

lemma two_grid_ok:
  "distinct (map fst two_grid)" "1 \<le> length two_grid" "length two_grid \<le> 5"
  by (simp_all add: two_grid_def)

lemma combos_two:
  "combos two_grid (sort (map fst two_grid)) =
     [[(''n_neighbors'', ''1''), (''p'', ''1'')], [(''n_neighbors'', ''1''), (''p'', ''2'')],
      [(''n_neighbors'', ''3''), (''p'', ''1'')], [(''n_neighbors'', ''3''), (''p'', ''2'')]]"
  by (simp add: two_grid_def grid_get_def)

theorem grid_enumeration_cartesian_product_witness:
  "distinct (map fst two_grid) \<and> 1 \<le> length two_grid \<and> length two_grid \<le> 5 \<and>
   distinct (map (str_dict (\<lambda>v. v)) (combos two_grid (sort (map fst two_grid)))) \<and>
   map_sum id evaluated (grid_enumeration knn_cv (\<lambda>v. v) two_grid) =
     Inr [[(''n_neighbors'', ''1''), (''p'', ''1'')], [(''n_neighbors'', ''1''), (''p'', ''2'')],
          [(''n_neighbors'', ''3''), (''p'', ''1'')], [(''n_neighbors'', ''3''), (''p'', ''2'')]] \<and>
   map_sum id (length \<circ> scores) (grid_enumeration knn_cv (\<lambda>v. v) two_grid) = Inr 4 \<and>
   prod_list (map (\<lambda>kv. length (snd kv)) two_grid) = 4"
proof -
  have d: "distinct (map (str_dict (\<lambda>v. v)) (combos two_grid (sort (map fst two_grid))))"
    unfolding combos_two by (simp add: str_dict_def str_item_def)
  have p: "prod_list (map (\<lambda>kv. length (snd kv)) two_grid) = 4" by (simp add: two_grid_def)
  from grid_enumeration_cartesian_product[OF two_grid_ok, of knn_cv "\<lambda>v. v"] d p two_grid_ok show ?thesis
    by (auto simp: combos_two)
qed

text \<open>
  Candidates with distinct printed forms under each name do not make the printed forms of
  the combinations distinct: in \<open>clash_grid\<close> the combinations \<open>(1; 2, 'b': 3)\<close> and
  \<open>(1, 'b': 2; 3)\<close> both print as \<open>{'a': 1, 'b': 2, 'b': 3}\<close>, so four models are evaluated
  and three entries are stored.
\<close>

theorem score_entries_product_counterexample:
  "distinct (map fst clash_grid) \<and> length clash_grid = 2 \<and>
   list_all (\<lambda>kv. snd kv \<noteq> [] \<and> distinct (snd kv)) clash_grid \<and>
   prod_list (map (\<lambda>kv. length (snd kv)) clash_grid) = 4 \<and>
   map_sum id (length \<circ> evaluated) (grid_enumeration knn_cv (\<lambda>v. v) clash_grid) = Inr 4 \<and>
   map_sum id (length \<circ> scores) (grid_enumeration knn_cv (\<lambda>v. v) clash_grid) = Inr 3"
  by (simp add: clash_grid_def grid_enumeration_def loop1_def loop2_def Let_def
      grid_get_def set_param_def evaluate_def str_dict_def str_item_def)


section \<open>Properties of customCV\<close>

lemma pick_cong:
  assumes "\<forall>i \<in> set ps. xs' ! i = xs ! i"
  shows "pick ps xs' = pick ps xs"
  using assms by (simp add: pick_def)

lemma differ_take_rows:
  assumes wf: "wf_frame X" and d: "differ_only_in_rows te X X'"
    and disj: "set tr \<inter> set te = {}" and rng: "list_all (\<lambda>i. i < nrows X) tr"
  shows "take_rows tr X' = take_rows tr X"
proof -
  from d have ix: "index X' = index X" and cn: "map fst (cols X') = map fst (cols X)"
    and l2: "list_all2 (\<lambda>cv cv'. length (snd cv') = length (snd cv) \<and>
                  list_all (\<lambda>i. i \<in> set te \<or> snd cv' ! i = snd cv ! i) [0..<length (snd cv)])
       (cols X) (cols X')"
    by (simp_all add: differ_only_in_rows_def columns_def)
  have len: "length (cols X') = length (cols X)" using l2 by (simp add: list_all2_lengthD)
  have "map (\<lambda>cv. (fst cv, pick tr (snd cv))) (cols X') = map (\<lambda>cv. (fst cv, pick tr (snd cv))) (cols X)"
  proof (rule nth_equalityI)
    show "length (map (\<lambda>cv. (fst cv, pick tr (snd cv))) (cols X')) =
          length (map (\<lambda>cv. (fst cv, pick tr (snd cv))) (cols X))" using len by simp
  next
    fix j assume "j < length (map (\<lambda>cv. (fst cv, pick tr (snd cv))) (cols X'))"
    then have j: "j < length (cols X)" using len by simp
    have f: "fst (cols X' ! j) = fst (cols X ! j)"
      using cn j len by (metis length_map nth_map)
    from l2 j have c: "list_all (\<lambda>i. i \<in> set te \<or> snd (cols X' ! j) ! i = snd (cols X ! j) ! i)
        [0..<length (snd (cols X ! j))]"
      by (simp add: list_all2_conv_all_nth)
    have lj: "length (snd (cols X ! j)) = nrows X"
      using wf j by (auto simp: wf_frame_def list_all_iff)
    have "\<forall>i \<in> set tr. snd (cols X' ! j) ! i = snd (cols X ! j) ! i"
    proof
      fix i assume i: "i \<in> set tr"
      with rng have "i < nrows X" by (simp add: list_all_iff)
      moreover from i disj have "i \<notin> set te" by auto
      ultimately show "snd (cols X' ! j) ! i = snd (cols X ! j) ! i"
        using c lj by (auto simp: list_all_iff)
    qed
    then have "pick tr (snd (cols X' ! j)) = pick tr (snd (cols X ! j))" by (rule pick_cong)
    with f j len show "map (\<lambda>cv. (fst cv, pick tr (snd cv))) (cols X') ! j =
        map (\<lambda>cv. (fst cv, pick tr (snd cv))) (cols X) ! j" by simp
  qed
  with ix show ?thesis by (simp add: take_rows_def)
qed

lemma scale_fold_train_only:
  assumes c: "fit_forgets env" and wf: "wf_frame X" and d: "differ_only_in_rows te X X'"
    and disj: "set tr \<inter> set te = {}"
    and r: "scale_fold env sc X (tr, te) = Inr (s1, u1, A, B)"
    and r': "scale_fold env sc' X' (tr, te) = Inr (s1', u1', A', B')"
  shows "s1' = s1 \<and> A' = A"
proof -
  from r have rng: "list_all (\<lambda>i. i < nrows X) tr"
    by (auto simp: scale_fold_def iloc_def split: if_splits)
  from d have n: "nrows X' = nrows X" and cs: "columns X' = columns X"
    by (simp_all add: differ_only_in_rows_def nrows_def)
  have t: "take_rows tr X' = take_rows tr X" by (rule differ_take_rows[OF wf d disj rng])
  from c have f: "fit_transform env sc' (take_rows tr X) = fit_transform env sc (take_rows tr X)"
    by (simp add: fit_forgets_def)
  from r r' show ?thesis
    by (auto simp: scale_fold_def iloc_def n cs t f Let_def split: if_splits sum.splits prod.splits)
qed

lemma fold_body_scaled:
  assumes "fold_body env X y orm ob fold_ix = Inr (ob', r)"
  shows "scale_fold env (ob_scaler ob) X fold_ix =
         Inr (fitted_scaler r, ob_scaler ob', X_train_s r, X_test_s r)"
  using assms
  by (auto simp: fold_body_def Let_def split: sum.splits prod.splits if_splits option.splits)

lemma cv_loop_nth:
  assumes "cv_loop env X y orm ob folds = (rs, e)" "k < length rs"
  shows "k < length folds \<and> (\<exists>obk ob'. fold_body env X y orm obk (folds ! k) = Inr (ob', rs ! k))"
  using assms
proof (induction folds arbitrary: ob rs k)
  case Nil
  then show ?case by simp
next
  case (Cons f folds)
  from Cons.prems obtain ob1 r1 rs1 where
    b: "fold_body env X y orm ob f = Inr (ob1, r1)"
    and l: "cv_loop env X y orm ob1 folds = (rs1, e)" and rs: "rs = r1 # rs1"
    by (auto split: sum.splits prod.splits)
  show ?case
  proof (cases k)
    case 0
    with b rs show ?thesis by auto
  next
    case (Suc j)
    with Cons.prems(2) rs have "j < length rs1" by simp
    from Cons.IH[OF l this] Suc rs show ?thesis by simp
  qed
qed

text \<open>
  C8, as amended. For a scaler whose \<open>fit\<close> forgets whatever the scaler held before, the
  scaler fitted in a fold of customCV depends on the training rows only: take two runs, on
  tables that differ only in the values of the test rows of fold \<open>k\<close>, with everything
  else the same. Whenever fold \<open>k\<close> is completed in both, the scaler as fitted on line 98
  and the scaled training features of that fold are the same in both. The training and
  test positions of the fold are disjoint.
\<close>

theorem customCV_scaler_sees_training_rows_only:
  assumes "fit_forgets env" "wf_frame X"
    and "k < length (skf_split env (nrows X) (s_values y))"
    and "set (fst (skf_split env (nrows X) (s_values y) ! k)) \<inter>
         set (snd (skf_split env (nrows X) (s_values y) ! k)) = {}"
    and "differ_only_in_rows (snd (skf_split env (nrows X) (s_values y) ! k)) X X'"
    and "customCV_folds env clf0 X y scaler0 resampler0 outlier_removal pca0 = (rs, e)"
    and "customCV_folds env clf0 X' y scaler0 resampler0 outlier_removal pca0 = (rs', e')"
    and "k < length rs" "k < length rs'"
  shows "fitted_scaler (rs' ! k) = fitted_scaler (rs ! k) \<and> X_train_s (rs' ! k) = X_train_s (rs ! k)"
proof -
  let ?folds = "skf_split env (nrows X) (s_values y)"
  obtain tr te where f: "?folds ! k = (tr, te)" by (cases "?folds ! k")
  from assms(5) have n: "nrows X' = nrows X" by (simp add: differ_only_in_rows_def nrows_def)
  from cv_loop_nth[OF assms(6)[unfolded customCV_folds_def] assms(8)] f
  obtain obk ob1 where b: "fold_body env X y outlier_removal obk (tr, te) = Inr (ob1, rs ! k)"
    by auto
  from cv_loop_nth[OF assms(7)[unfolded customCV_folds_def] assms(9)] f n
  obtain obk' ob1' where b': "fold_body env X' y outlier_removal obk' (tr, te) = Inr (ob1', rs' ! k)"
    by auto
  from assms(4,5) f have d: "differ_only_in_rows te X X'" and dj: "set tr \<inter> set te = {}"
    by simp_all
  from scale_fold_train_only[OF assms(1,2) d dj fold_body_scaled[OF b] fold_body_scaled[OF b']]
  show ?thesis .
qed

lemma run_table4:
  "customCV_folds centering_env () table4 labels4 [] () False None =
    ([\<lparr>fitted_scaler = [15],
        X_train_s = \<lparr>index = [0, 1], cols = [(''V1'', [- 5, 5])]\<rparr>,
        X_test_s = \<lparr>index = [0, 1], cols = [(''V1'', [- 14, - 12])]\<rparr>,
        fold_scores = \<lparr>recall = 1, precision = 1 / 2, f1 = 2 / 3\<rparr>\<rparr>,
      \<lparr>fitted_scaler = [2],
        X_train_s = \<lparr>index = [0, 1], cols = [(''V1'', [- 1, 1])]\<rparr>,
        X_test_s = \<lparr>index = [0, 1], cols = [(''V1'', [8, 18])]\<rparr>,
        fold_scores = \<lparr>recall = 1, precision = 1 / 2, f1 = 2 / 3\<rparr>\<rparr>], None)"
  by (simp add: customCV_folds_def centering_env_def table4_def labels4_def fold_body_def scale_fold_def
    iloc_def iloc_series_def nrows_def s_len_def take_rows_def take_items_def pick_def DataFrame_def
    column_means_def frame_rows_def select_columns_def columns_def get_col_def Let_def)

lemma run_table4_other:
  "customCV_folds centering_env () table4_other labels4 [] () False None =
    ([\<lparr>fitted_scaler = [60],
        X_train_s = \<lparr>index = [0, 1], cols = [(''V1'', [- 10, 10])]\<rparr>,
        X_test_s = \<lparr>index = [0, 1], cols = [(''V1'', [- 59, - 57])]\<rparr>,
        fold_scores = \<lparr>recall = 1, precision = 1 / 2, f1 = 2 / 3\<rparr>\<rparr>,
      \<lparr>fitted_scaler = [2],
        X_train_s = \<lparr>index = [0, 1], cols = [(''V1'', [- 1, 1])]\<rparr>,
        X_test_s = \<lparr>index = [0, 1], cols = [(''V1'', [48, 68])]\<rparr>,
        fold_scores = \<lparr>recall = 1, precision = 1 / 2, f1 = 2 / 3\<rparr>\<rparr>], None)"
  by (simp add: customCV_folds_def centering_env_def table4_other_def labels4_def fold_body_def scale_fold_def
    iloc_def iloc_series_def nrows_def s_len_def take_rows_def take_items_def pick_def DataFrame_def
    column_means_def frame_rows_def select_columns_def columns_def get_col_def Let_def)

theorem customCV_scaler_sees_training_rows_only_witness:
  "fit_forgets centering_env \<and> wf_frame table4 \<and>
   skf_split centering_env (nrows table4) (s_values labels4) = [([2, 3], [0, 1]), ([0, 1], [2, 3])] \<and>
   differ_only_in_rows [2, 3] table4 table4_other \<and>
   map fitted_scaler (fst (customCV_folds centering_env () table4 labels4 [] () False None)) = [[15], [2]] \<and>
   map fitted_scaler (fst (customCV_folds centering_env () table4_other labels4 [] () False None)) = [[60], [2]] \<and>
   X_train_s (fst (customCV_folds centering_env () table4_other labels4 [] () False None) ! 1) =
   X_train_s (fst (customCV_folds centering_env () table4 labels4 [] () False None) ! 1)"
proof -
  have c: "fit_forgets centering_env" by (simp add: fit_forgets_def centering_env_def)
  have w: "wf_frame table4" by (simp add: wf_frame_def table4_def columns_def nrows_def)
  have s: "skf_split centering_env (nrows table4) (s_values labels4) = [([2, 3], [0, 1]), ([0, 1], [2, 3])]"
    by (simp add: centering_env_def)
  have d: "differ_only_in_rows [2, 3] table4 table4_other"
    by (simp add: differ_only_in_rows_def table4_def table4_other_def columns_def upt_conv_Cons)
  have k: "1 < length (skf_split centering_env (nrows table4) (s_values labels4))"
    "set (fst (skf_split centering_env (nrows table4) (s_values labels4) ! 1)) \<inter>
     set (snd (skf_split centering_env (nrows table4) (s_values labels4) ! 1)) = {}"
    "differ_only_in_rows (snd (skf_split centering_env (nrows table4) (s_values labels4) ! 1))
       table4 table4_other"
    using d by (simp_all add: s)
  from customCV_scaler_sees_training_rows_only[OF c w k run_table4 run_table4_other] c w s d
  show ?thesis by (simp add: run_table4 run_table4_other)
qed


lemma run_remembering_table4:
  "map fitted_scaler (fst (customCV_folds remembering_env () table4 labels4 [] () False None)) =
     [[15], [17 / 2]]"
  by (simp add: customCV_folds_def remembering_env_def centering_env_def table4_def labels4_def
    fold_body_def scale_fold_def running_means_def
    iloc_def iloc_series_def nrows_def s_len_def take_rows_def take_items_def pick_def DataFrame_def
    column_means_def frame_rows_def select_columns_def columns_def get_col_def Let_def)

lemma run_remembering_table4_other:
  "map fitted_scaler (fst (customCV_folds remembering_env () table4_other labels4 [] () False None)) =
     [[60], [31]]"
  by (simp add: customCV_folds_def remembering_env_def centering_env_def table4_other_def labels4_def
    fold_body_def scale_fold_def running_means_def
    iloc_def iloc_series_def nrows_def s_len_def take_rows_def take_items_def pick_def DataFrame_def
    column_means_def frame_rows_def select_columns_def columns_def get_col_def Let_def)

text \<open>
  One scaler object serves all the folds, and the test rows of a fold are training rows of
  the others: with a scaler that keeps a running average over its fits, the scaler fitted
  in the second fold differs between two tables that differ only in the test rows of that
  fold.
\<close>

theorem customCV_scaler_leak_counterexample:
  "wf_frame table4 \<and>
   skf_split remembering_env (nrows table4) (s_values labels4) = [([2, 3], [0, 1]), ([0, 1], [2, 3])] \<and>
   differ_only_in_rows [2, 3] table4 table4_other \<and>
   snd (customCV_folds remembering_env () table4 labels4 [] () False None) = None \<and>
   snd (customCV_folds remembering_env () table4_other labels4 [] () False None) = None \<and>
   map fitted_scaler (fst (customCV_folds remembering_env () table4 labels4 [] () False None)) =
     [[15], [17 / 2]] \<and>
   map fitted_scaler (fst (customCV_folds remembering_env () table4_other labels4 [] () False None)) =
     [[60], [31]] \<and>
   fitted_scaler (fst (customCV_folds remembering_env () table4_other labels4 [] () False None) ! 1) \<noteq>
   fitted_scaler (fst (customCV_folds remembering_env () table4 labels4 [] () False None) ! 1)"
proof -
  have w: "wf_frame table4" by (simp add: wf_frame_def table4_def columns_def nrows_def)
  have s: "skf_split remembering_env (nrows table4) (s_values labels4) =
      [([2, 3], [0, 1]), ([0, 1], [2, 3])]"
    by (simp add: remembering_env_def centering_env_def)
  have d: "differ_only_in_rows [2, 3] table4 table4_other"
    by (simp add: differ_only_in_rows_def table4_def table4_other_def columns_def upt_conv_Cons)
  have e: "snd (customCV_folds remembering_env () table4 labels4 [] () False None) = None"
    by (simp add: customCV_folds_def remembering_env_def centering_env_def table4_def labels4_def
      fold_body_def scale_fold_def running_means_def
      iloc_def iloc_series_def nrows_def s_len_def take_rows_def take_items_def pick_def DataFrame_def
      column_means_def frame_rows_def select_columns_def columns_def get_col_def Let_def)
  have e': "snd (customCV_folds remembering_env () table4_other labels4 [] () False None) = None"
    by (simp add: customCV_folds_def remembering_env_def centering_env_def table4_other_def labels4_def
      fold_body_def scale_fold_def running_means_def
      iloc_def iloc_series_def nrows_def s_len_def take_rows_def take_items_def pick_def DataFrame_def
      column_means_def frame_rows_def select_columns_def columns_def get_col_def Let_def)
  have n: "fitted_scaler (fst (customCV_folds remembering_env () table4_other labels4 [] () False None) ! 1) \<noteq>
   fitted_scaler (fst (customCV_folds remembering_env () table4 labels4 [] () False None) ! 1)"
  proof -
    let ?r = "fst (customCV_folds remembering_env () table4 labels4 [] () False None)"
    let ?r' = "fst (customCV_folds remembering_env () table4_other labels4 [] () False None)"
    have "length (map fitted_scaler ?r) = 2" "length (map fitted_scaler ?r') = 2"
      by (simp_all only: run_remembering_table4_other run_remembering_table4) simp_all
    then have l: "1 < length ?r" "1 < length ?r'" by simp_all
    have "fitted_scaler (?r ! 1) = map fitted_scaler ?r ! 1"
      "fitted_scaler (?r' ! 1) = map fitted_scaler ?r' ! 1"
      using l by (simp_all only: nth_map)
    then show ?thesis
      by (simp only: run_remembering_table4_other run_remembering_table4) simp
  qed
  from w s d e e' n run_remembering_table4 run_remembering_table4_other show ?thesis by blast
qed

end
